theory Spec2Isabelle
  imports Main "HOL-Library.Word"
begin

unbundle bit_operations_syntax

section \<open>Data model of hawk.c\<close>

type_synonym u8 = "8 word"
type_synonym u16 = "16 word"
type_synonym u32 = "32 word"
type_synonym u64 = "64 word"

text \<open>
  The constants of \<^verbatim>\<open>hawk.h\<close> and \<^verbatim>\<open>scheduler.h\<close>. The headers are not part of
  the sources, so every function below takes the constants as a parameter \<open>c\<close>. They are
  non-negative integer constants; arithmetic that mixes them with a C variable is done in
  the type of that variable (\<open>unsigned\<close> is 32 bits wide, \<open>uint64_t\<close> 64 bits).
\<close>

record hawk_consts =
  HAWK_SECTOR_BYTES :: nat
  HAWK_SECTS_PER_TRK :: nat
  HAWK_RAW_SECTOR_BITS :: nat
  HAWK_RAW_TRACK_BITS :: nat
  HAWK_GAP_BITS :: nat
  HAWK_SYNC_BITS :: nat
  HAWK_NUM_CYLINDERS :: nat
  HAWK_ROTATION_NS :: nat
  HAWK_SECTOR_NS :: nat
  HAWK_BIT_NS :: nat
  ONE_MILISECOND_NS :: nat

text \<open>
  \<^verbatim>\<open>struct hawk_unit\<close>, with the fields hawk.c uses. The flags hold the \<open>unsigned\<close>
  values hawk.c stores in them; \<open>data_ptr\<close>, \<open>head_pos\<close> and \<open>sector_addr\<close> are signed
  (\<open>data_ptr\<close> is compared with 0 in \<^verbatim>\<open>hawk_rewind\<close>) and are kept as integers, wide enough
  for the values stored. \<open>current_track_data\<close> is the array of one-bit cells, addressed by
  \<open>data_ptr\<close>; its length is \<open>HAWK_RAW_TRACK_BITS\<close> and every access checks the index.
\<close>

record hawk_unit =
  fd :: int
  unit_num :: int
  seeking :: u32
  on_cyl :: u32
  addr_ack :: u32
  addr_int :: u32
  seek_error :: u32
  fault :: u32
  current_track :: u32
  rotation_offset :: u64
  head_pos :: int
  sector_addr :: int
  data_ptr :: int
  current_track_data :: "int \<Rightarrow> u8"

text \<open>What stops the C program: a failed \<^verbatim>\<open>assert\<close>, and the undefined behaviours
  the code can reach (null pointer, array index out of range, division by zero).\<close>

datatype fault = AssertionFailed | NullPointer | OutOfBounds | DivisionByZero

text \<open>\<^verbatim>\<open>struct event_t\<close> of the scheduler: the delay and the callback. The two static
  events are addressed by \<open>event_ref\<close> (\<^verbatim>\<open>&seek_event.event\<close>, \<^verbatim>\<open>&rotation_event.event\<close>).\<close>

datatype callback_fn = no_callback | seek_callback_fn | rotation_event_cb_fn

datatype event_ref = SeekEventRef | RotationEventRef

record event_t =
  delta_ns :: int
  callback :: callback_fn

text \<open>\<^verbatim>\<open>struct seek_event_t\<close> and \<^verbatim>\<open>struct rotation_event_t\<close>. A unit pointer is the
  address of the unit in the store, \<open>None\<close> for the null pointer of a static that was
  never assigned.\<close>

record seek_event_t =
  se_event :: event_t
  se_unit :: "nat option"
  se_seek_error :: u32

record rotation_event_t =
  re_event :: event_t
  re_unit :: "nat option"
  re_in_process :: u32

text \<open>The backing store behind a file descriptor: a regular file with its bytes and its
  file position. A descriptor that is not open has no entry.\<close>

record backing_file =
  content :: "u8 list"
  pos :: nat

type_synonym fd_table = "int \<Rightarrow> backing_file option"

text \<open>
  The whole state: the units (by address), the two static events, the open files, and
  what the external collaborators have been told: the events handed to
  \<^verbatim>\<open>schedule_event\<close>, the unit numbers passed to \<^verbatim>\<open>dsk_hawk_changed\<close>, and the value
  \<^verbatim>\<open>get_current_time\<close> returns.
\<close>

record world =
  units :: "nat \<Rightarrow> hawk_unit"
  seek_event :: seek_event_t
  rotation_event :: rotation_event_t
  files :: fd_table
  scheduled :: "event_ref list"
  changed :: "int list"
  current_time :: u64

section \<open>The environment: lseek, read, the scheduler, the controller\<close>

definition lseek_set :: "fd_table \<Rightarrow> int \<Rightarrow> int \<Rightarrow> int \<times> fd_table" where
  "lseek_set fs d off =
     (case fs d of
        None \<Rightarrow> (- 1, fs)
      | Some f \<Rightarrow> if off < 0 then (- 1, fs)
                  else (off, fs(d := Some (f\<lparr>pos := nat off\<rparr>))))"

definition read_fd :: "fd_table \<Rightarrow> int \<Rightarrow> nat \<Rightarrow> int \<times> u8 list \<times> fd_table" where
  "read_fd fs d n =
     (case fs d of
        None \<Rightarrow> (- 1, [], fs)
      | Some f \<Rightarrow>
          (let bs = take n (drop (pos f) (content f))
           in (int (length bs), bs, fs(d := Some (f\<lparr>pos := pos f + length bs\<rparr>)))))"

definition schedule_event :: "event_ref \<Rightarrow> world \<Rightarrow> world" where
  "schedule_event e w = w\<lparr>scheduled := scheduled w @ [e]\<rparr>"

definition dsk_hawk_changed :: "int \<Rightarrow> world \<Rightarrow> world" where
  "dsk_hawk_changed n w = w\<lparr>changed := changed w @ [n]\<rparr>"

section \<open>Seek completion\<close>

definition hawk_seek_callback :: "event_ref \<Rightarrow> int \<Rightarrow> world \<Rightarrow> fault + world" where
  "hawk_seek_callback event late_ns w =
     (if event \<noteq> SeekEventRef then Inl AssertionFailed
      else case se_unit (seek_event w) of
        None \<Rightarrow> Inl NullPointer
      | Some p \<Rightarrow>
          (let u = units w p;
               u1 = (if se_seek_error (seek_event w) \<noteq> 0
                     then u\<lparr>seek_error := se_seek_error (seek_event w)\<rparr> else u);
               u2 = u1\<lparr>on_cyl := 1, seeking := 0\<rparr>
           in Inr (dsk_hawk_changed (unit_num u2) (w\<lparr>units := (units w)(p := u2)\<rparr>))))"

section \<open>Rotation\<close>

definition hawk_update :: "hawk_consts \<Rightarrow> hawk_unit \<Rightarrow> u64 \<Rightarrow> fault + hawk_unit" where
  "hawk_update c u now =
     (if (of_nat (HAWK_ROTATION_NS c) :: u64) = 0 \<or> HAWK_SECTOR_NS c = 0 then Inl DivisionByZero
      else
        (let rotation = (now + rotation_offset u) mod of_nat (HAWK_ROTATION_NS c)
         in Inr (u\<lparr>head_pos := int (unat rotation * HAWK_BIT_NS c),
                   sector_addr := int (unat rotation div HAWK_SECTOR_NS c)\<rparr>)))"

text \<open>\<^verbatim>\<open>hawk_remaining_bits\<close>: the rotation is recomputed, the difference is signed.\<close>

definition hawk_remaining_bits :: "hawk_consts \<Rightarrow> hawk_unit \<Rightarrow> u64 \<Rightarrow> fault + (int \<times> hawk_unit)" where
  "hawk_remaining_bits c u time =
     (case hawk_update c u time of
        Inl e \<Rightarrow> Inl e
      | Inr u' \<Rightarrow> Inr (head_pos u' - data_ptr u', u'))"

definition hawk_rotation_event_cb :: "hawk_consts \<Rightarrow> event_ref \<Rightarrow> int \<Rightarrow> world \<Rightarrow> fault + world" where
  "hawk_rotation_event_cb c event late_ns w =
     (if event \<noteq> RotationEventRef then Inl AssertionFailed
      else
        (let w1 = w\<lparr>rotation_event := (rotation_event w)\<lparr>re_in_process := 0\<rparr>\<rparr>
         in case re_unit (rotation_event w1) of
              None \<Rightarrow> Inl NullPointer
            | Some p \<Rightarrow>
                (let now = current_time w1
                 in case hawk_update c (units w1 p) now of
                      Inl e \<Rightarrow> Inl e
                    | Inr u \<Rightarrow>
                        (let u' = u\<lparr>data_ptr := head_pos u\<rparr>
                         in Inr (dsk_hawk_changed (unit_num u')
                                   (w1\<lparr>units := (units w1)(p := u')\<rparr>))))))"

text \<open>
  \<^verbatim>\<open>hawk_wait_sector\<close>. The difference of the two \<open>uint64_t\<close> phases wraps around and is
  read as \<open>int64_t\<close>; the product \<open>HAWK_SECTOR_NS * sector\<close> is taken in the 64-bit type
  of \<open>desired_rotation\<close>. The \<^verbatim>\<open>assert\<close> comes after the arithmetic and before the event
  is touched.
\<close>

definition hawk_wait_sector :: "hawk_consts \<Rightarrow> nat \<Rightarrow> u32 \<Rightarrow> world \<Rightarrow> fault + world" where
  "hawk_wait_sector c p sector w =
     (let now = current_time w
      in if (of_nat (HAWK_ROTATION_NS c) :: u64) = 0 then Inl DivisionByZero
         else
           (let rotation = (now + rotation_offset (units w p)) mod of_nat (HAWK_ROTATION_NS c);
                desired_rotation = (of_nat (HAWK_SECTOR_NS c) :: u64) * ucast sector;
                delta = sint (desired_rotation - rotation);
                delta' = (if delta < 0 then delta + int (HAWK_ROTATION_NS c) else delta)
            in if re_in_process (rotation_event w) \<noteq> 0 then Inl AssertionFailed
               else Inr (schedule_event RotationEventRef
                      (w\<lparr>rotation_event := (rotation_event w)
                           \<lparr>re_unit := Some p, re_in_process := 1,
                            re_event := (re_event (rotation_event w))
                               \<lparr>delta_ns := delta', callback := rotation_event_cb_fn\<rparr>\<rparr>\<rparr>))))"

section \<open>Bit-stream primitives\<close>

text \<open>The statements \<^verbatim>\<open>unit->current_track_data[unit->data_ptr++] = bit\<close> and
  \<^verbatim>\<open>bit = unit->current_track_data[unit->data_ptr++]\<close>, with the index checked.\<close>

definition store_cell :: "hawk_consts \<Rightarrow> hawk_unit \<Rightarrow> u8 \<Rightarrow> fault + hawk_unit" where
  "store_cell c u b =
     (if 0 \<le> data_ptr u \<and> data_ptr u < int (HAWK_RAW_TRACK_BITS c)
      then Inr (u\<lparr>current_track_data := (current_track_data u)(data_ptr u := b),
                  data_ptr := data_ptr u + 1\<rparr>)
      else Inl OutOfBounds)"

definition load_cell :: "hawk_consts \<Rightarrow> hawk_unit \<Rightarrow> fault + (u8 \<times> hawk_unit)" where
  "load_cell c u =
     (if 0 \<le> data_ptr u \<and> data_ptr u < int (HAWK_RAW_TRACK_BITS c)
      then Inr (current_track_data u (data_ptr u), u\<lparr>data_ptr := data_ptr u + 1\<rparr>)
      else Inl OutOfBounds)"

text \<open>\<^verbatim>\<open>hawk_set_bits\<close>: \<^verbatim>\<open>while (count--)\<close> stops when \<open>count\<close> is 0; a negative count
  runs until the cursor leaves the array.\<close>

function hawk_set_bits :: "hawk_consts \<Rightarrow> hawk_unit \<Rightarrow> int \<Rightarrow> u8 \<Rightarrow> fault + hawk_unit" where
  "hawk_set_bits c u count val =
     (if count = 0 then Inr u
      else case store_cell c u (val AND 1) of
             Inl e \<Rightarrow> Inl e
           | Inr u' \<Rightarrow> hawk_set_bits c u' (count - 1) val)"
  by pat_completeness auto
termination
  by (relation "measure (\<lambda>(c, u, count, val). nat (int (HAWK_RAW_TRACK_BITS c) - data_ptr u))")
     (auto simp: store_cell_def split: if_splits)

text \<open>
  \<^verbatim>\<open>hawk_write_bits\<close>: the \<^verbatim>\<open>while (1)\<close> loop takes the next byte of \<open>data\<close>, the
  \<^verbatim>\<open>for\<close> loop runs \<open>shift\<close> from 7 down to 1. \<^verbatim>\<open>if (count--) return;\<close> returns when
  \<open>count\<close> is not 0. Reading past the end of \<open>data\<close> is out of bounds.
\<close>

fun hawk_write_bits :: "hawk_consts \<Rightarrow> hawk_unit \<Rightarrow> int \<Rightarrow> u8 list \<Rightarrow> fault + hawk_unit"
  and hawk_write_bits_for ::
    "hawk_consts \<Rightarrow> hawk_unit \<Rightarrow> int \<Rightarrow> u8 list \<Rightarrow> u8 \<Rightarrow> nat \<Rightarrow> fault + hawk_unit" where
  "hawk_write_bits c u count [] = Inl OutOfBounds"
| "hawk_write_bits c u count (byte # data) = hawk_write_bits_for c u count data byte 7"
| "hawk_write_bits_for c u count data byte shift =
     (if shift = 0 then hawk_write_bits c u count data
      else if count \<noteq> 0 then Inr u
      else case store_cell c u (drop_bit shift byte AND 1) of
             Inl e \<Rightarrow> Inl e
           | Inr u' \<Rightarrow> hawk_write_bits_for c u' (count - 1) data byte (shift - 1))"

text \<open>
  \<^verbatim>\<open>hawk_read_bits\<close>: \<open>dest\<close> is the caller's buffer and \<open>di\<close> the position of the
  \<open>dest\<close> pointer in it; the result is the unit and the buffer as left behind.
  \<^verbatim>\<open>if (--count)\<close> stores the byte and returns when the decremented \<open>count\<close> is not 0.
\<close>

function hawk_read_bits ::
    "hawk_consts \<Rightarrow> hawk_unit \<Rightarrow> int \<Rightarrow> u8 list \<Rightarrow> nat \<Rightarrow> fault + (hawk_unit \<times> u8 list)"
  and hawk_read_bits_for ::
    "hawk_consts \<Rightarrow> hawk_unit \<Rightarrow> int \<Rightarrow> u8 list \<Rightarrow> nat \<Rightarrow> u8 \<Rightarrow> nat
       \<Rightarrow> fault + (hawk_unit \<times> u8 list)" where
  "hawk_read_bits c u count dest di = hawk_read_bits_for c u count dest di 0 7"
| "hawk_read_bits_for c u count dest di byte shift =
     (if shift = 0
      then (if di < length dest then hawk_read_bits c u count (dest[di := byte]) (di + 1)
            else Inl OutOfBounds)
      else case load_cell c u of
             Inl e \<Rightarrow> Inl e
           | Inr (b, u') \<Rightarrow>
               (let byte' = byte OR push_bit shift b;
                    count' = count - 1
                in if count' \<noteq> 0
                   then (if di < length dest then Inr (u', dest[di := byte'])
                         else Inl OutOfBounds)
                   else hawk_read_bits_for c u' count' dest di byte' (shift - 1)))"
  by pat_completeness auto
termination
  by (relation "inv_image (less_than <*lex*> less_than)
        (\<lambda>x. case x of
                Inl (c, u, count, dest, di) \<Rightarrow> (length dest - di, 8)
              | Inr (c, u, count, dest, di, byte, shift) \<Rightarrow> (length dest - di, shift))")
     auto

definition hawk_rewind :: "hawk_consts \<Rightarrow> hawk_unit \<Rightarrow> int \<Rightarrow> hawk_unit" where
  "hawk_rewind c u count =
     (let u1 = u\<lparr>data_ptr := data_ptr u - count\<rparr>
      in if data_ptr u1 < 0 then u1\<lparr>data_ptr := data_ptr u1 + int (HAWK_RAW_TRACK_BITS c)\<rparr>
         else u1)"

section \<open>Track materialization\<close>

definition fault_bind :: "fault + 'a \<Rightarrow> ('a \<Rightarrow> fault + 'b) \<Rightarrow> fault + 'b" where
  "fault_bind m f = (case m of Inl e \<Rightarrow> Inl e | Inr x \<Rightarrow> f x)"

text \<open>
  One round of the \<^verbatim>\<open>for\<close> loop of \<^verbatim>\<open>hawk_buffer_track\<close>. The result carries 0 when
  the read of the sector came back short (the function returns 0 there) and 1 when the
  round ran to its end. The address word is computed in \<open>unsigned\<close> and cut to 16 bits.
\<close>

definition hawk_buffer_sector ::
    "hawk_consts \<Rightarrow> u32 \<Rightarrow> u32 \<Rightarrow> nat \<Rightarrow> hawk_unit \<Rightarrow> fd_table
       \<Rightarrow> fault + (int \<times> hawk_unit \<times> fd_table)" where
  "hawk_buffer_sector c cyl head sector u0 fs =
     fault_bind (hawk_set_bits c (u0\<lparr>data_ptr := int sector * int (HAWK_RAW_SECTOR_BITS c)\<rparr>)
                   (int (HAWK_GAP_BITS c)) 0) (\<lambda>u.
     fault_bind (hawk_set_bits c u (int (HAWK_SYNC_BITS c) - 1) 0) (\<lambda>u.
     fault_bind (hawk_set_bits c u 1 1) (\<lambda>u.
     let addr = (ucast (push_bit 8 cyl OR push_bit 4 head OR (of_nat sector :: u32)) :: u16);
         check_word = NOT addr;
         addr_data = [ucast (drop_bit 8 addr AND 0xff), ucast (addr AND 0xff),
                      ucast (drop_bit 8 check_word AND 0xff), ucast (check_word AND 0xff)]
     in
     fault_bind (hawk_write_bits c u 32 addr_data) (\<lambda>u.
     fault_bind (hawk_set_bits c u (int (HAWK_GAP_BITS c)) 0) (\<lambda>u.
     fault_bind (hawk_set_bits c u (int (HAWK_SYNC_BITS c) - 1) 0) (\<lambda>u.
     fault_bind (hawk_set_bits c u 1 1) (\<lambda>u.
     case read_fd fs (fd u) (HAWK_SECTOR_BYTES c) of
       (n, buffer, fs') \<Rightarrow>
         if n \<noteq> int (HAWK_SECTOR_BYTES c) then Inr (0, u, fs')
         else
           fault_bind (hawk_write_bits c u (int (HAWK_SECTOR_BYTES c) * 8) buffer) (\<lambda>u.
           fault_bind (hawk_write_bits c u 16 [0xcc, 0xcc]) (\<lambda>u.
           fault_bind (hawk_set_bits c u (int (HAWK_GAP_BITS c div 2)) 0) (\<lambda>u.
           Inr (1, u, fs')))))))))))"

function hawk_buffer_track_for ::
    "hawk_consts \<Rightarrow> u32 \<Rightarrow> u32 \<Rightarrow> nat \<Rightarrow> hawk_unit \<Rightarrow> fd_table
       \<Rightarrow> fault + (int \<times> hawk_unit \<times> fd_table)" where
  "hawk_buffer_track_for c cyl head sector u fs =
     (if sector < HAWK_SECTS_PER_TRK c
      then case hawk_buffer_sector c cyl head sector u fs of
             Inl e \<Rightarrow> Inl e
           | Inr (r, u', fs') \<Rightarrow>
               if r = 0 then Inr (0, u', fs')
               else hawk_buffer_track_for c cyl head (sector + 1) u' fs'
      else Inr (1, u, fs))"
  by pat_completeness auto
termination
  by (relation "measure (\<lambda>(c, cyl, head, sector, u, fs). HAWK_SECTS_PER_TRK c - sector)") auto

text \<open>\<^verbatim>\<open>hawk_buffer_track\<close>: the offset is computed in \<open>unsigned\<close> and widened to
  \<open>off_t\<close>; one \<^verbatim>\<open>lseek\<close>, then the loop over the sectors.\<close>

definition hawk_buffer_track ::
    "hawk_consts \<Rightarrow> hawk_unit \<Rightarrow> u32 \<Rightarrow> u32 \<Rightarrow> fd_table
       \<Rightarrow> fault + (int \<times> hawk_unit \<times> fd_table)" where
  "hawk_buffer_track c u cyl head fs =
     (let offset = uint ((push_bit 5 cyl OR push_bit 4 head) * (of_nat (HAWK_SECTOR_BYTES c) :: u32))
      in case lseek_set fs (fd u) offset of
           (r, fs1) \<Rightarrow>
             if r = - 1 then Inr (0, u, fs1)
             else hawk_buffer_track_for c cyl head 0 u fs1)"

section \<open>Seek and Return-To-Zero\<close>

text \<open>
  \<^verbatim>\<open>hawk_seek\<close> on the unit at address \<open>p\<close>. The local \<open>offset\<close> of the C function is
  computed and never used, and is left out. \<open>7.5 * ONE_MILISECOND_NS\<close> is a \<open>double\<close>
  product converted to the integer \<open>delta_ns\<close>, which cuts the fraction off.
\<close>

definition hawk_seek :: "hawk_consts \<Rightarrow> nat \<Rightarrow> u32 \<Rightarrow> u32 \<Rightarrow> world \<Rightarrow> fault + world" where
  "hawk_seek c p cyl head w =
     (if seeking (units w p) \<noteq> 0 then Inr w
      else
        (let u = (units w p)\<lparr>seeking := 1, addr_ack := 0, addr_int := 0,
                              current_track := push_bit 1 cyl OR head, on_cyl := 0\<rparr>
         in if (of_nat (HAWK_NUM_CYLINDERS c) :: u32) \<le> cyl
            then Inr (w\<lparr>units := (units w)(p := u\<lparr>addr_int := 1\<rparr>)\<rparr>)
            else
              (let se = (seek_event w)
                          \<lparr>se_event := (se_event (seek_event w))
                              \<lparr>delta_ns := (15 * int (ONE_MILISECOND_NS c)) div 2,
                               callback := seek_callback_fn\<rparr>,
                           se_unit := Some p, se_seek_error := 0\<rparr>
               in case hawk_buffer_track c u cyl head (files w) of
                    Inl e \<Rightarrow> Inl e
                  | Inr (r, u', fs') \<Rightarrow>
                      (let se' = (if r = 0
                                  then se\<lparr>se_seek_error := 1,
                                          se_event := (se_event se)
                                             \<lparr>delta_ns := 500 * int (ONE_MILISECOND_NS c)\<rparr>\<rparr>
                                  else se)
                       in Inr (schedule_event SeekEventRef
                                 (w\<lparr>units := (units w)(p := u'\<lparr>addr_ack := 1\<rparr>),
                                    seek_event := se', files := fs'\<rparr>))))))"

definition hawk_rtz :: "hawk_consts \<Rightarrow> nat \<Rightarrow> world \<Rightarrow> fault + world" where
  "hawk_rtz c p w =
     hawk_seek c p 0 0
       (w\<lparr>units := (units w)(p := (units w p)\<lparr>seek_error := 0, fault := 0, seeking := 0\<rparr>)\<rparr>)"

section \<open>Auxiliary notions\<close>

text \<open>
  What \<^verbatim>\<open>hawk_set_bits\<close> leaves behind when the run stays inside the array: \<open>n\<close> cells
  from the cursor on hold \<open>v\<close>, and the cursor has moved by \<open>n\<close>.
\<close>

definition fill_cells :: "hawk_unit \<Rightarrow> int \<Rightarrow> u8 \<Rightarrow> hawk_unit" where
  "fill_cells u n v =
     u\<lparr>current_track_data :=
          (\<lambda>i. if data_ptr u \<le> i \<and> i < data_ptr u + n then v else current_track_data u i),
       data_ptr := data_ptr u + n\<rparr>"

text \<open>
  The constants fit together: a sector is not empty, the sync field has its closing one,
  the gaps and sync fields of a round fit into the raw sector, and the raw sectors fit
  into the track array.
\<close>

definition track_fits :: "hawk_consts \<Rightarrow> bool" where
  "track_fits c \<longleftrightarrow>
     0 < HAWK_SECTOR_BYTES c \<and> 1 \<le> HAWK_SYNC_BITS c
     \<and> 2 * HAWK_GAP_BITS c + 2 * HAWK_SYNC_BITS c + HAWK_GAP_BITS c div 2
          \<le> HAWK_RAW_SECTOR_BITS c
     \<and> HAWK_SECTS_PER_TRK c * HAWK_RAW_SECTOR_BITS c \<le> HAWK_RAW_TRACK_BITS c"

text \<open>The unit after the gap and sync fields of a round, up to the read of the
  sector, and after the whole round.\<close>

definition gaps_laid :: "hawk_consts \<Rightarrow> nat \<Rightarrow> hawk_unit \<Rightarrow> hawk_unit" where
  "gaps_laid c sector u =
     fill_cells (fill_cells (fill_cells
       (fill_cells (fill_cells (fill_cells
          (u\<lparr>data_ptr := int sector * int (HAWK_RAW_SECTOR_BITS c)\<rparr>)
          (int (HAWK_GAP_BITS c)) 0) (int (HAWK_SYNC_BITS c) - 1) 0) 1 1)
       (int (HAWK_GAP_BITS c)) 0) (int (HAWK_SYNC_BITS c) - 1) 0) 1 1"

definition sector_laid :: "hawk_consts \<Rightarrow> nat \<Rightarrow> hawk_unit \<Rightarrow> hawk_unit" where
  "sector_laid c sector u = fill_cells (gaps_laid c sector u) (int (HAWK_GAP_BITS c div 2)) 0"

text \<open>The unit after \<open>n\<close> rounds that ran to their end, the first of them for
  sector \<open>k\<close>.\<close>

fun rounds_laid :: "hawk_consts \<Rightarrow> nat \<Rightarrow> nat \<Rightarrow> hawk_unit \<Rightarrow> hawk_unit" where
  "rounds_laid c k 0 u = u"
| "rounds_laid c k (Suc n) u = rounds_laid c (Suc k) n (sector_laid c k u)"

text \<open>Only the cursor and the cells of the track buffer differ.\<close>

definition only_track_changed :: "hawk_unit \<Rightarrow> hawk_unit \<Rightarrow> bool" where
  "only_track_changed u u' \<longleftrightarrow>
     u'\<lparr>data_ptr := data_ptr u, current_track_data := current_track_data u\<rparr> = u"

section \<open>The address field as the specification states it\<close>

text \<open>
  Not drawn from hawk.c: the four bytes the specification expects back from the address
  field, the 16-bit word \<open>cylinder<<8 | head<<4 | sector\<close> and then its bitwise
  complement, high byte first. It is compared with what the code reads back.
\<close>

definition spec_address_field :: "u32 \<Rightarrow> u32 \<Rightarrow> nat \<Rightarrow> u8 list" where
  "spec_address_field cyl head sector =
     (let addr = (ucast (push_bit 8 cyl OR push_bit 4 head OR (of_nat sector :: u32)) :: u16)
      in [ucast (drop_bit 8 addr), ucast addr, ucast (drop_bit 8 (NOT addr)), ucast (NOT addr)])"

section \<open>Sample values\<close>

text \<open>
  A valuation of the constants with the figures hawk.c quotes in its comments (400-byte
  sectors, a gap of 120 bits, a sync field of 87 zeros and a one) and sixteen sectors of
  3724 raw bits on a track that turns once in 25 ms; a unit as it is at attach time, with
  all flags clear; and a state holding such units over a given table of open files.
\<close>

definition example_consts :: hawk_consts where
  "example_consts =
     \<lparr>HAWK_SECTOR_BYTES = 400, HAWK_SECTS_PER_TRK = 16, HAWK_RAW_SECTOR_BITS = 3724,
      HAWK_RAW_TRACK_BITS = 59584, HAWK_GAP_BITS = 120, HAWK_SYNC_BITS = 88,
      HAWK_NUM_CYLINDERS = 406, HAWK_ROTATION_NS = 25000000, HAWK_SECTOR_NS = 1562500,
      HAWK_BIT_NS = 1, ONE_MILISECOND_NS = 1000000\<rparr>"

definition fresh_unit :: "int \<Rightarrow> int \<Rightarrow> hawk_unit" where
  "fresh_unit d n =
     \<lparr>fd = d, unit_num = n, seeking = 0, on_cyl = 0, addr_ack = 0, addr_int = 0,
      seek_error = 0, fault = 0, current_track = 0, rotation_offset = 0, head_pos = 0,
      sector_addr = 0, data_ptr = 0, current_track_data = (\<lambda>i. 0)\<rparr>"

definition fresh_world :: "fd_table \<Rightarrow> world" where
  "fresh_world fs =
     \<lparr>units = (\<lambda>p. fresh_unit 3 (int p)),
      seek_event = \<lparr>se_event = \<lparr>delta_ns = 0, callback = no_callback\<rparr>,
                     se_unit = None, se_seek_error = 0\<rparr>,
      rotation_event = \<lparr>re_event = \<lparr>delta_ns = 0, callback = no_callback\<rparr>,
                         re_unit = None, re_in_process = 0\<rparr>,
      files = fs, scheduled = [], changed = [], current_time = 0\<rparr>"

text \<open>A state in which a seek of unit 0 is pending with an injected error.\<close>

definition failed_seek_pending :: world where
  "failed_seek_pending =
     (fresh_world (\<lambda>d. None))
       \<lparr>seek_event := \<lparr>se_event = \<lparr>delta_ns = 500000000, callback = seek_callback_fn\<rparr>,
                        se_unit = Some 0, se_seek_error = 1\<rparr>\<rparr>"

text \<open>The clock stands one nanosecond after the index mark: the head is inside
  sector 0, past its start.\<close>

definition inside_sector_world :: world where
  "inside_sector_world = (fresh_world (\<lambda>d. None))\<lparr>current_time := 1\<rparr>"

text \<open>A rotation event is already in flight.\<close>

definition rotation_pending_world :: world where
  "rotation_pending_world =
     (fresh_world (\<lambda>d. None))
       \<lparr>rotation_event := \<lparr>re_event = \<lparr>delta_ns = 1562500, callback = rotation_event_cb_fn\<rparr>,
                            re_unit = Some 0, re_in_process = 1\<rparr>\<rparr>"

text \<open>Descriptor 3 open on a store truncated to zero bytes, and on a zero-filled store
  of the full size (406 cylinders of 32 slots of 400 bytes).\<close>

definition empty_store :: fd_table where
  "empty_store = (\<lambda>d. None)(3 := Some \<lparr>content = [], pos = 0\<rparr>)"

definition healthy_store :: fd_table where
  "healthy_store = (\<lambda>d. None)(3 := Some \<lparr>content = replicate 5196800 0, pos = 0\<rparr>)"

text \<open>The backing store of the units is open and truncated to zero bytes.\<close>

definition empty_store_world :: world where
  "empty_store_world = fresh_world empty_store"

text \<open>A unit whose track buffer still holds ones in every cell.\<close>

definition stale_unit :: hawk_unit where
  "stale_unit = (fresh_unit 3 0)\<lparr>current_track_data := (\<lambda>i. 1)\<rparr>"


text \<open>Units with a seek error and a fault latched, still marked as seeking.\<close>

definition faulted_world :: world where
  "faulted_world =
     empty_store_world
       \<lparr>units := (\<lambda>p. (fresh_unit 3 (int p))\<lparr>seeking := 1, seek_error := 1, fault := 1,
                                                current_track := 11\<rparr>)\<rparr>"

text \<open>A later seek of such a unit has gone well and is pending, with no injected
  error.\<close>

definition clean_seek_pending :: world where
  "clean_seek_pending =
     faulted_world
       \<lparr>seek_event := \<lparr>se_event = \<lparr>delta_ns = 7500000, callback = seek_callback_fn\<rparr>,
                        se_unit = Some 0, se_seek_error = 0\<rparr>\<rparr>"

text \<open>A unit whose rotation offset is a skew of one period below zero, as an unsigned
  64-bit value.\<close>

definition skewed_unit :: hawk_unit where
  "skewed_unit = (fresh_unit 3 0)\<lparr>rotation_offset := 18446744073684551616\<rparr>"

text \<open>Descriptor 3 open on a store that holds one sector of 400 bytes and ends there.\<close>

definition one_sector_store :: fd_table where
  "one_sector_store = (\<lambda>d. None)(3 := Some \<lparr>content = replicate 400 0, pos = 0\<rparr>)"

declare hawk_set_bits.simps [simp del]
declare hawk_write_bits.simps [simp del]
declare hawk_write_bits_for.simps [simp del]
declare hawk_read_bits.simps [simp del]
declare hawk_read_bits_for.simps [simp del]
declare hawk_buffer_track_for.simps [simp del]

section \<open>Word arithmetic\<close>

lemma unat_of_nat_u32: "n < 2 ^ 32 \<Longrightarrow> unat (of_nat n :: u32) = n"
  by (simp add: unat_of_nat take_bit_nat_eq_self)

lemma unat_of_nat_u64: "n < 2 ^ 64 \<Longrightarrow> unat (of_nat n :: u64) = n"
  by (simp add: unat_of_nat take_bit_nat_eq_self)

lemma sint_diff_small:
  fixes a b :: u64
  assumes "unat a < 2 ^ 63" and "unat b < 2 ^ 63"
  shows "sint (a - b) = int (unat a) - int (unat b)"
proof -
  have a: "uint a < 2 ^ 63" and b: "uint b < 2 ^ 63"
    using assms by (simp_all add: unat_eq_nat_uint nat_less_iff del: nat_uint_eq)
  have "sint (a - b) = signed_take_bit 63 (take_bit 64 (uint a - uint b))"
    by (simp add: sint_uint uint_word_ariths take_bit_eq_mod)
  also have "\<dots> = signed_take_bit 63 (uint a - uint b)"
    by (simp add: signed_take_bit_take_bit)
  also have "\<dots> = uint a - uint b"
  proof (rule signed_take_bit_int_eq_self)
    have "0 \<le> uint a" "0 \<le> uint b" by simp_all
    with a b show "- (2 ^ 63) \<le> uint a - uint b" "uint a - uint b < 2 ^ 63" by linarith+
  qed
  finally show ?thesis by simp
qed

lemma unat_mod_of_nat:
  fixes x :: u64
  assumes "0 < n" "n < 2 ^ 64"
  shows "unat (x mod of_nat n) = unat x mod n"
  using assms by (simp add: unat_mod unat_of_nat_u64)

lemma uint_mod_of_nat:
  fixes x :: u64
  assumes "0 < n" "n < 2 ^ 64"
  shows "uint (x mod of_nat n) = int (unat x mod n)"
  by (simp only: uint_nat unat_mod_of_nat [OF assms])

lemma rotation_shift_period:
  fixes now off :: u64
  assumes "0 < n" "unat (now + off) + n < 2 ^ 64"
  shows "(now + of_nat n + off) mod of_nat n = (now + off) mod of_nat n"
proof -
  have n: "n < 2 ^ 64" using assms(2) by simp
  have "unat ((now + off) + of_nat n) = unat (now + off) + n"
    using assms(2) n by (simp add: unat_add_lem [THEN iffD1] unat_of_nat_u64)
  then have "unat (((now + off) + of_nat n) mod of_nat n) = unat ((now + off) mod of_nat n)"
    using assms(1) n by (simp add: unat_mod_of_nat)
  then show ?thesis by (simp add: word_unat_eq_iff add.commute add.left_commute)
qed

lemma cyl_out_of_range:
  assumes "HAWK_NUM_CYLINDERS c \<le> unat (cyl :: u32)"
  shows "(of_nat (HAWK_NUM_CYLINDERS c) :: u32) \<le> cyl"
proof -
  have "unat cyl < 2 ^ 32" using unsigned_less [of cyl, where 'a = nat] by simp
  with assms have "HAWK_NUM_CYLINDERS c < 2 ^ 32" by simp
  then have "unat (of_nat (HAWK_NUM_CYLINDERS c) :: u32) = HAWK_NUM_CYLINDERS c"
    by (rule unat_of_nat_u32)
  with assms show ?thesis by (simp add: word_le_nat_alt)
qed

section \<open>Properties of seek completion\<close>

text \<open>
  C1, as amended. When the scheduled seek-completion callback fires for the unit the seek
  event points to, the callback returns, and the unit ends with \<open>on_cyl = 1\<close> and
  \<open>seeking = 0\<close>, whether or not an error was injected. With the pending error flag of
  the seek event set, the unit's \<open>seek_error\<close> becomes the flag; with the flag clear,
  \<open>seek_error\<close> is left as it was. So on a unit without an earlier seek error,
  \<open>seek_error\<close> is set afterwards exactly when the flag was. The controller is notified
  once, and no other unit changes.
\<close>

theorem seek_callback_completes:
  assumes "se_unit (seek_event w) = Some p"
  shows "\<exists>w'. hawk_seek_callback SeekEventRef late_ns w = Inr w'
            \<and> on_cyl (units w' p) = 1 \<and> seeking (units w' p) = 0
            \<and> (se_seek_error (seek_event w) \<noteq> 0 \<longrightarrow>
                 seek_error (units w' p) = se_seek_error (seek_event w))
            \<and> (se_seek_error (seek_event w) = 0 \<longrightarrow>
                 seek_error (units w' p) = seek_error (units w p))
            \<and> (seek_error (units w p) = 0 \<longrightarrow>
                 (seek_error (units w' p) \<noteq> 0 \<longleftrightarrow> se_seek_error (seek_event w) \<noteq> 0))
            \<and> changed w' = changed w @ [unit_num (units w p)]
            \<and> (\<forall>q. q \<noteq> p \<longrightarrow> units w' q = units w q)"
  using assms by (simp add: hawk_seek_callback_def dsk_hawk_changed_def Let_def)

theorem seek_callback_completes_witness:
  "se_unit (seek_event failed_seek_pending) = Some 0
   \<and> se_seek_error (seek_event failed_seek_pending) \<noteq> 0
   \<and> seek_error (units failed_seek_pending 0) = 0
   \<and> (\<exists>w'. hawk_seek_callback SeekEventRef 0 failed_seek_pending = Inr w'
        \<and> on_cyl (units w' 0) = 1 \<and> seeking (units w' 0) = 0
        \<and> seek_error (units w' 0) = 1)
   \<and> se_unit (seek_event clean_seek_pending) = Some 0
   \<and> se_seek_error (seek_event clean_seek_pending) = 0
   \<and> seek_error (units clean_seek_pending 0) = 1
   \<and> (\<exists>w'. hawk_seek_callback SeekEventRef 0 clean_seek_pending = Inr w'
        \<and> on_cyl (units w' 0) = 1 \<and> seeking (units w' 0) = 0
        \<and> seek_error (units w' 0) = 1)"
  using seek_callback_completes [of failed_seek_pending 0 0]
    seek_callback_completes [of clean_seek_pending 0 0]
  by (auto simp add: failed_seek_pending_def clean_seek_pending_def faulted_world_def
      fresh_world_def fresh_unit_def)

text \<open>
  A unit that carries a seek error from an earlier seek (nothing but Return-To-Zero clears
  it) completes a later seek that went well: the pending flag is clear when the callback
  runs, and \<open>seek_error\<close> is still set on the unit afterwards.
\<close>

theorem seek_error_stays_latched_counterexample:
  "se_unit (seek_event clean_seek_pending) = Some 0
   \<and> se_seek_error (seek_event clean_seek_pending) = 0
   \<and> hawk_seek_callback SeekEventRef 0 clean_seek_pending
       = Inr (clean_seek_pending
               \<lparr>units := (units clean_seek_pending)
                   (0 := (units clean_seek_pending 0)\<lparr>on_cyl := 1, seeking := 0\<rparr>),
                changed := [0]\<rparr>)
   \<and> seek_error ((units clean_seek_pending 0)\<lparr>on_cyl := 1, seeking := 0\<rparr>) = 1"
  by (simp add: hawk_seek_callback_def dsk_hawk_changed_def Let_def clean_seek_pending_def
      faulted_world_def empty_store_world_def fresh_world_def fresh_unit_def)

section \<open>Properties of seek requests\<close>

text \<open>
  C4. A seek request whose target cylinder is at or beyond the cylinder count, on a unit
  that is not already seeking, returns with \<open>addr_int = 1\<close>; no event is scheduled, the
  two static events and the backing store (the open files and their positions) are as
  before, and \<open>seeking\<close> is still set after the return.
\<close>

theorem seek_out_of_range:
  assumes "seeking (units w p) = 0" and "HAWK_NUM_CYLINDERS c \<le> unat cyl"
  shows "\<exists>w'. hawk_seek c p cyl head w = Inr w'
            \<and> addr_int (units w' p) = 1 \<and> seeking (units w' p) = 1
            \<and> scheduled w' = scheduled w \<and> seek_event w' = seek_event w
            \<and> rotation_event w' = rotation_event w
            \<and> files w' = files w"
  using assms(1) cyl_out_of_range [OF assms(2)]
  by (simp add: hawk_seek_def Let_def)

theorem seek_out_of_range_witness:
  "seeking (units (fresh_world (\<lambda>d. None)) 0) = 0
   \<and> HAWK_NUM_CYLINDERS example_consts \<le> unat (406 :: u32)
   \<and> (\<exists>w'. hawk_seek example_consts 0 406 0 (fresh_world (\<lambda>d. None)) = Inr w'
          \<and> addr_int (units w' 0) = 1 \<and> seeking (units w' 0) = 1 \<and> scheduled w' = [])"
  using seek_out_of_range [of "fresh_world (\<lambda>d. None)" 0 example_consts 406 0]
  by (auto simp add: fresh_world_def fresh_unit_def example_consts_def)

section \<open>Properties of the rotation query\<close>

text \<open>
  C6, as amended. The rotation query computes
  \<open>rotation = ((T + rotation_offset) mod 2^64) mod HAWK_ROTATION_NS\<close>,
  \<open>head_pos = rotation * HAWK_BIT_NS\<close> and \<open>sector_addr = rotation div HAWK_SECTOR_NS\<close>,
  and touches no other field. It is periodic wherever the 64-bit sum does not wrap
  around: when \<open>(T + rotation_offset) mod 2^64 + HAWK_ROTATION_NS < 2^64\<close>, the query at
  \<open>T + HAWK_ROTATION_NS\<close> gives the same unit as the query at \<open>T\<close>.
\<close>

theorem hawk_update_periodic:
  assumes "0 < HAWK_ROTATION_NS c" and "0 < HAWK_SECTOR_NS c"
    and "unat (now + rotation_offset u) + HAWK_ROTATION_NS c < 2 ^ 64"
  shows "hawk_update c u now =
           Inr (u\<lparr>head_pos := int (unat (now + rotation_offset u) mod HAWK_ROTATION_NS c
                                    * HAWK_BIT_NS c),
                  sector_addr := int (unat (now + rotation_offset u) mod HAWK_ROTATION_NS c
                                    div HAWK_SECTOR_NS c)\<rparr>)
         \<and> hawk_update c u (now + of_nat (HAWK_ROTATION_NS c)) = hawk_update c u now"
proof -
  have lt: "HAWK_ROTATION_NS c < 2 ^ 64" using assms(3) by simp
  then have nz: "(of_nat (HAWK_ROTATION_NS c) :: u64) \<noteq> 0"
    using assms(1) unat_of_nat_u64 [OF lt] by (metis unat_0 less_numeral_extra(3))
  have per: "(now + of_nat (HAWK_ROTATION_NS c) + rotation_offset u) mod of_nat (HAWK_ROTATION_NS c)
             = (now + rotation_offset u) mod of_nat (HAWK_ROTATION_NS c)"
    by (rule rotation_shift_period [OF assms(1) assms(3)])
  show ?thesis
    using nz assms(2) per
    by (simp add: hawk_update_def Let_def unat_mod_of_nat [OF assms(1) lt]
        uint_mod_of_nat [OF assms(1) lt])
qed

theorem hawk_update_periodic_witness:
  "0 < HAWK_ROTATION_NS example_consts \<and> 0 < HAWK_SECTOR_NS example_consts
   \<and> unat (26562500 + rotation_offset (fresh_unit 3 0)) + HAWK_ROTATION_NS example_consts < 2 ^ 64
   \<and> hawk_update example_consts (fresh_unit 3 0) 26562500
        = Inr ((fresh_unit 3 0)\<lparr>head_pos := 1562500, sector_addr := 1\<rparr>)
   \<and> hawk_update example_consts (fresh_unit 3 0) (26562500 + of_nat (HAWK_ROTATION_NS example_consts))
        = hawk_update example_consts (fresh_unit 3 0) 26562500"
  using hawk_update_periodic [of example_consts 26562500 "fresh_unit 3 0"]
  by (simp add: example_consts_def fresh_unit_def)

text \<open>
  At \<open>T = 2^64 - 1\<close> the sum \<open>T + HAWK_ROTATION_NS\<close> wraps around to
  \<open>HAWK_ROTATION_NS - 1\<close>, and the two queries differ (the phases are 9551615 and
  24999999). And with a rotation offset of \<open>2^64 - HAWK_ROTATION_NS\<close> the sum of time and
  offset wraps between \<open>T = 0\<close> and \<open>T = HAWK_ROTATION_NS\<close> (the phases are 9551616 and 0).
\<close>

theorem hawk_update_wraps_counterexample:
  "hawk_update example_consts (fresh_unit 3 0)
       (18446744073709551615 + of_nat (HAWK_ROTATION_NS example_consts))
     \<noteq> hawk_update example_consts (fresh_unit 3 0) 18446744073709551615
   \<and> hawk_update example_consts skewed_unit 0
        = Inr (skewed_unit\<lparr>head_pos := 9551616, sector_addr := 6\<rparr>)
   \<and> hawk_update example_consts skewed_unit (0 + of_nat (HAWK_ROTATION_NS example_consts))
        = Inr (skewed_unit\<lparr>head_pos := 0, sector_addr := 0\<rparr>)"
  by (simp add: hawk_update_def example_consts_def fresh_unit_def skewed_unit_def Let_def)

section \<open>Properties of wait-for-sector\<close>

lemma wait_sector_delta:
  fixes x :: u64 and sector :: u32
  assumes R: "0 < R" "R < 2 ^ 63"
    and tgt: "S * unat sector \<le> R"
  shows "sint ((of_nat S :: u64) * ucast sector - x mod of_nat R)
           = int (S * unat sector) - int (unat x mod R)"
proof -
  have R64: "R < 2 ^ 64" using R(2) by simp
  have s64: "unat sector < 2 ^ 64"
    using unsigned_less [of sector, where 'a = nat] by simp
  have t63: "S * unat sector < 2 ^ 63" using tgt R(2) by simp
  have e: "(of_nat S :: u64) * ucast sector = of_nat (S * unat sector)"
    by simp
  have "S * unat sector < 2 ^ 64" using t63 by simp
  then have "unat (of_nat (S * unat sector) :: u64) = S * unat sector"
    by (rule unat_of_nat_u64)
  then have d: "unat ((of_nat S :: u64) * ucast sector) = S * unat sector"
    by (simp only: e)
  have r: "unat (x mod of_nat R) = unat x mod R"
    by (rule unat_mod_of_nat [OF R(1) R64])
  have r63: "unat x mod R < 2 ^ 63"
    using R by (meson mod_less_divisor order_less_trans)
  show ?thesis
    using sint_diff_small [of "(of_nat S :: u64) * ucast sector" "x mod of_nat R"] d r t63 r63
    by simp
qed

lemma wrap_delta:
  fixes t ph r :: int
  assumes "0 \<le> ph" "ph < r" "0 \<le> t" "t < r"
  shows "0 \<le> (if t - ph < 0 then t - ph + r else t - ph)"
    and "(if t - ph < 0 then t - ph + r else t - ph) < r"
    and "(if t - ph < 0 then t - ph + r else t - ph) = 0 \<longleftrightarrow> ph = t"
  using assms by auto

lemma rotation_event_cb_fires:
  assumes "(of_nat (HAWK_ROTATION_NS c) :: u64) \<noteq> 0" and "0 < HAWK_SECTOR_NS c"
    and "re_unit (rotation_event w2) = Some p"
  shows "\<exists>w3 u. hawk_rotation_event_cb c RotationEventRef late_ns w2 = Inr w3
                       \<and> hawk_update c (units w2 p) (current_time w2) = Inr u
                       \<and> head_pos (units w3 p) = head_pos u
                       \<and> sector_addr (units w3 p) = sector_addr u
                       \<and> data_ptr (units w3 p) = head_pos (units w3 p)
                       \<and> re_in_process (rotation_event w3) = 0
                       \<and> changed w3 = changed w2 @ [unit_num (units w2 p)]"
  using assms
  by (simp add: hawk_rotation_event_cb_def hawk_update_def Let_def dsk_hawk_changed_def)

text \<open>
  C7, as amended. For every target sector index below the sectors-per-track count, and
  with no rotation event in flight, wait-for-sector schedules the rotation event for the
  unit with the delay \<open>target_phase - current_phase\<close>, one full period added if that is
  negative, which lies in \<open>[0, HAWK_ROTATION_NS)\<close>. The delay is 0 exactly when the
  current phase equals the start phase of the target sector. When the event fires, the
  rotation is recomputed at the time of firing, \<open>data_ptr\<close> is set to \<open>head_pos\<close>, the
  in-process mark is cleared and the controller is notified.
\<close>

theorem wait_sector_delay:
  assumes R: "0 < HAWK_ROTATION_NS c" "HAWK_ROTATION_NS c < 2 ^ 63"
    and S: "0 < HAWK_SECTOR_NS c"
    and fit: "HAWK_SECTOR_NS c * HAWK_SECTS_PER_TRK c \<le> HAWK_ROTATION_NS c"
    and sec: "unat sector < HAWK_SECTS_PER_TRK c"
    and idle: "re_in_process (rotation_event w) = 0"
  shows "\<exists>w'. hawk_wait_sector c p sector w = Inr w'
            \<and> scheduled w' = scheduled w @ [RotationEventRef]
            \<and> re_unit (rotation_event w') = Some p
            \<and> callback (re_event (rotation_event w')) = rotation_event_cb_fn
            \<and> units w' = units w
            \<and> (let phase = int (unat (current_time w + rotation_offset (units w p))
                                   mod HAWK_ROTATION_NS c);
                     target = int (HAWK_SECTOR_NS c * unat sector);
                     delta = delta_ns (re_event (rotation_event w'))
                 in delta = (if target - phase < 0 then target - phase + int (HAWK_ROTATION_NS c)
                             else target - phase)
                    \<and> 0 \<le> delta \<and> delta < int (HAWK_ROTATION_NS c)
                    \<and> (delta = 0 \<longleftrightarrow> phase = target))
            \<and> (\<forall>w2. re_unit (rotation_event w2) = Some p \<longrightarrow>
                  (\<exists>w3 u. hawk_rotation_event_cb c RotationEventRef late_ns w2 = Inr w3
                       \<and> hawk_update c (units w2 p) (current_time w2) = Inr u
                       \<and> head_pos (units w3 p) = head_pos u
                       \<and> sector_addr (units w3 p) = sector_addr u
                       \<and> data_ptr (units w3 p) = head_pos (units w3 p)
                       \<and> re_in_process (rotation_event w3) = 0
                       \<and> changed w3 = changed w2 @ [unit_num (units w2 p)]))"
proof -
  define ph where "ph = int (unat (current_time w + rotation_offset (units w p))
                                   mod HAWK_ROTATION_NS c)"
  define t where "t = int (HAWK_SECTOR_NS c * unat sector)"
  define d where "d = (if t - ph < 0 then t - ph + int (HAWK_ROTATION_NS c) else t - ph)"
  define w' where "w' = schedule_event RotationEventRef
                      (w\<lparr>rotation_event := (rotation_event w)
                           \<lparr>re_unit := Some p, re_in_process := 1,
                            re_event := (re_event (rotation_event w))
                               \<lparr>delta_ns := d, callback := rotation_event_cb_fn\<rparr>\<rparr>\<rparr>)"
  have R64: "HAWK_ROTATION_NS c < 2 ^ 64" using R(2) by simp
  have nz: "(of_nat (HAWK_ROTATION_NS c) :: u64) \<noteq> 0"
    using R(1) unat_of_nat_u64 [OF R64] by (metis unat_0 less_numeral_extra(3))
  have "HAWK_SECTOR_NS c * Suc (unat sector) \<le> HAWK_SECTOR_NS c * HAWK_SECTS_PER_TRK c"
    using sec by (intro mult_le_mono2) simp
  then have tgt: "HAWK_SECTOR_NS c * unat sector + HAWK_SECTOR_NS c \<le> HAWK_ROTATION_NS c"
    using fit by simp
  then have tgt': "HAWK_SECTOR_NS c * unat sector \<le> HAWK_ROTATION_NS c" by simp
  have t_lt: "t < int (HAWK_ROTATION_NS c)" and t_ge: "0 \<le> t"
    using tgt S unfolding t_def by linarith+
  have ph_lt: "ph < int (HAWK_ROTATION_NS c)" and ph_ge: "0 \<le> ph"
    using R(1) unfolding ph_def by simp_all
  have "sint ((of_nat (HAWK_SECTOR_NS c) :: u64) * ucast sector
          - (current_time w + rotation_offset (units w p)) mod of_nat (HAWK_ROTATION_NS c)) = t - ph"
    unfolding t_def ph_def by (rule wait_sector_delta [OF R tgt'])
  then have run: "hawk_wait_sector c p sector w = Inr w'"
    using nz idle by (simp add: hawk_wait_sector_def Let_def w'_def d_def)
  have dn: "delta_ns (re_event (rotation_event w')) = d"
    by (simp add: w'_def schedule_event_def)
  have arith: "0 \<le> d" "d < int (HAWK_ROTATION_NS c)" "d = 0 \<longleftrightarrow> ph = t"
    unfolding d_def by (rule wrap_delta [OF ph_ge ph_lt t_ge t_lt])+
  have delta: "let phase = int (unat (current_time w + rotation_offset (units w p))
                                   mod HAWK_ROTATION_NS c);
                     target = int (HAWK_SECTOR_NS c * unat sector);
                     delta = delta_ns (re_event (rotation_event w'))
                 in delta = (if target - phase < 0 then target - phase + int (HAWK_ROTATION_NS c)
                             else target - phase)
                    \<and> 0 \<le> delta \<and> delta < int (HAWK_ROTATION_NS c)
                    \<and> (delta = 0 \<longleftrightarrow> phase = target)"
    unfolding Let_def dn ph_def [symmetric] t_def [symmetric]
    using arith by (simp only: d_def [symmetric])
  have frame: "scheduled w' = scheduled w @ [RotationEventRef]"
      "re_unit (rotation_event w') = Some p"
      "callback (re_event (rotation_event w')) = rotation_event_cb_fn"
      "units w' = units w"
    by (simp_all add: w'_def schedule_event_def)
  show ?thesis
    using run frame delta rotation_event_cb_fires [OF nz S] by blast
qed

theorem wait_sector_delay_witness:
  "0 < HAWK_ROTATION_NS example_consts \<and> HAWK_ROTATION_NS example_consts < 2 ^ 63
   \<and> 0 < HAWK_SECTOR_NS example_consts
   \<and> HAWK_SECTOR_NS example_consts * HAWK_SECTS_PER_TRK example_consts
        \<le> HAWK_ROTATION_NS example_consts
   \<and> unat (1 :: u32) < HAWK_SECTS_PER_TRK example_consts
   \<and> re_in_process (rotation_event inside_sector_world) = 0
   \<and> re_unit (rotation_event rotation_pending_world) = Some 0
   \<and> (\<exists>w'. hawk_wait_sector example_consts 0 1 inside_sector_world = Inr w'
          \<and> scheduled w' = [RotationEventRef]
          \<and> delta_ns (re_event (rotation_event w')) = 1562499)
   \<and> (\<exists>w3. hawk_rotation_event_cb example_consts RotationEventRef 0 rotation_pending_world = Inr w3
          \<and> data_ptr (units w3 0) = head_pos (units w3 0))"
proof -
  have h: "0 < HAWK_ROTATION_NS example_consts" "HAWK_ROTATION_NS example_consts < 2 ^ 63"
      "0 < HAWK_SECTOR_NS example_consts"
      "HAWK_SECTOR_NS example_consts * HAWK_SECTS_PER_TRK example_consts
        \<le> HAWK_ROTATION_NS example_consts"
      "unat (1 :: u32) < HAWK_SECTS_PER_TRK example_consts"
      "re_in_process (rotation_event inside_sector_world) = 0"
    by (simp_all add: example_consts_def inside_sector_world_def fresh_world_def)
  have p: "re_unit (rotation_event rotation_pending_world) = Some 0"
    by (simp add: rotation_pending_world_def)
  from wait_sector_delay [OF h, of 0 0] obtain w' where
    w': "hawk_wait_sector example_consts 0 1 inside_sector_world = Inr w'"
      "scheduled w' = scheduled inside_sector_world @ [RotationEventRef]"
      "delta_ns (re_event (rotation_event w')) =
         (if int (HAWK_SECTOR_NS example_consts * unat (1 :: u32))
               - int (unat (current_time inside_sector_world
                        + rotation_offset (units inside_sector_world 0))
                      mod HAWK_ROTATION_NS example_consts) < 0
          then int (HAWK_SECTOR_NS example_consts * unat (1 :: u32))
               - int (unat (current_time inside_sector_world
                        + rotation_offset (units inside_sector_world 0))
                      mod HAWK_ROTATION_NS example_consts) + int (HAWK_ROTATION_NS example_consts)
          else int (HAWK_SECTOR_NS example_consts * unat (1 :: u32))
               - int (unat (current_time inside_sector_world
                        + rotation_offset (units inside_sector_world 0))
                      mod HAWK_ROTATION_NS example_consts))"
      "\<forall>w2. re_unit (rotation_event w2) = Some 0 \<longrightarrow>
          (\<exists>w3. hawk_rotation_event_cb example_consts RotationEventRef 0 w2 = Inr w3
               \<and> data_ptr (units w3 0) = head_pos (units w3 0))"
    unfolding Let_def by blast
  have "delta_ns (re_event (rotation_event w')) = 1562499"
    using w'(3)
    by (simp add: example_consts_def inside_sector_world_def fresh_world_def fresh_unit_def)
  moreover have "scheduled w' = [RotationEventRef]"
    using w'(2) by (simp add: inside_sector_world_def fresh_world_def)
  ultimately show ?thesis using h p w'(1) w'(4) by blast
qed

text \<open>
  One nanosecond after the index mark the head is over sector 0 (\<open>sector_addr = 0\<close>);
  waiting for sector 0 then schedules the event 24999999 ns ahead, not at once. And with a
  rotation event already in flight the \<^verbatim>\<open>assert\<close> stops the program before anything
  is scheduled.
\<close>

theorem wait_sector_counterexample:
  "hawk_update example_consts (units inside_sector_world 0) (current_time inside_sector_world)
     = Inr ((units inside_sector_world 0)\<lparr>head_pos := 1, sector_addr := 0\<rparr>)
   \<and> hawk_wait_sector example_consts 0 0 inside_sector_world
     = Inr (inside_sector_world
             \<lparr>rotation_event := \<lparr>re_event = \<lparr>delta_ns = 24999999, callback = rotation_event_cb_fn\<rparr>,
                                  re_unit = Some 0, re_in_process = 1\<rparr>,
              scheduled := [RotationEventRef]\<rparr>)
   \<and> hawk_wait_sector example_consts 0 0 rotation_pending_world = Inl AssertionFailed"
  by (simp add: hawk_update_def hawk_wait_sector_def schedule_event_def Let_def example_consts_def
      inside_sector_world_def rotation_pending_world_def fresh_world_def fresh_unit_def)

section \<open>The bit primitives in closed form\<close>

lemma fill_cells_0: "fill_cells u 0 v = u"
proof -
  have "(\<lambda>i. if data_ptr u \<le> i \<and> i < data_ptr u + 0 then v else current_track_data u i)
          = current_track_data u"
    by (auto simp add: fun_eq_iff)
  then show ?thesis by (simp add: fill_cells_def)
qed

lemma fill_cells_Suc:
  "0 \<le> n \<Longrightarrow>
   fill_cells (u\<lparr>current_track_data := (current_track_data u)(data_ptr u := v),
                 data_ptr := data_ptr u + 1\<rparr>) n v = fill_cells u (n + 1) v"
  by (auto simp add: fill_cells_def fun_eq_iff intro!: hawk_unit.equality)

lemma hawk_set_bits_nat:
  "0 \<le> data_ptr u \<Longrightarrow> data_ptr u + int k \<le> int (HAWK_RAW_TRACK_BITS c) \<Longrightarrow>
   hawk_set_bits c u (int k) v = Inr (fill_cells u (int k) (v AND 1))"
proof (induction k arbitrary: u)
  case 0
  then show ?case by (simp add: hawk_set_bits.simps fill_cells_0)
next
  case (Suc k)
  let ?u' = "u\<lparr>current_track_data := (current_track_data u)(data_ptr u := v AND 1),
                data_ptr := data_ptr u + 1\<rparr>"
  have st: "store_cell c u (v AND 1) = Inr ?u'"
    using Suc.prems by (simp add: store_cell_def)
  have "hawk_set_bits c u (int (Suc k)) v = hawk_set_bits c ?u' (int k) v"
    by (subst hawk_set_bits.simps) (simp add: st)
  also have "\<dots> = Inr (fill_cells ?u' (int k) (v AND 1))"
    using Suc.prems by (intro Suc.IH) simp_all
  also have "fill_cells ?u' (int k) (v AND 1) = fill_cells u (int k + 1) (v AND 1)"
    by (rule fill_cells_Suc) simp
  finally show ?case by (simp add: add.commute)
qed

lemma hawk_set_bits_fill:
  assumes "0 \<le> n" "0 \<le> data_ptr u" "data_ptr u + n \<le> int (HAWK_RAW_TRACK_BITS c)"
  shows "hawk_set_bits c u n v = Inr (fill_cells u n (v AND 1))"
  using hawk_set_bits_nat [of u "nat n" c v] assms by simp

lemma hawk_write_bits_nonzero:
  "count \<noteq> 0 \<Longrightarrow> hawk_write_bits c u count (b # data) = Inr u"
  by (simp add: hawk_write_bits.simps hawk_write_bits_for.simps)

lemma hawk_write_bits_zero:
  "0 \<le> data_ptr u \<Longrightarrow> data_ptr u < int (HAWK_RAW_TRACK_BITS c) \<Longrightarrow>
   hawk_write_bits c u 0 (b # data)
     = Inr (u\<lparr>current_track_data := (current_track_data u)(data_ptr u := drop_bit 7 b AND 1),
              data_ptr := data_ptr u + 1\<rparr>)"
  by (simp add: hawk_write_bits.simps hawk_write_bits_for.simps [of c _ _ _ _ 7]
        hawk_write_bits_for.simps [of c _ _ _ _ 6] store_cell_def)

lemma hawk_read_bits_one_cell:
  assumes "count \<noteq> 1" "0 \<le> data_ptr u" "data_ptr u < int (HAWK_RAW_TRACK_BITS c)"
    and "di < length dest"
  shows "hawk_read_bits c u count dest di
           = Inr (u\<lparr>data_ptr := data_ptr u + 1\<rparr>,
                  dest[di := push_bit 7 (current_track_data u (data_ptr u))])"
  using assms
  by (simp add: hawk_read_bits.simps hawk_read_bits_for.simps [of c _ _ _ _ _ 7] load_cell_def)

section \<open>One round of the materialization loop, and the loop\<close>

lemma fill_cells_sel [simp]:
  "data_ptr (fill_cells u n v) = data_ptr u + n"
  "fd (fill_cells u n v) = fd u"
  by (simp_all add: fill_cells_def)

lemma fill_cells_frame:
  "(fill_cells u n v)\<lparr>data_ptr := dp, current_track_data := td\<rparr>
     = u\<lparr>data_ptr := dp, current_track_data := td\<rparr>"
  by (simp add: fill_cells_def)

lemma sector_span:
  assumes "sector < n" and "n * r \<le> t"
  shows "int sector * int r + int r \<le> int (t :: nat)"
proof -
  have "Suc sector * r \<le> n * r" using assms(1) by (intro mult_le_mono1) simp
  then have "sector * r + r \<le> t" using assms(2) by simp
  then show ?thesis by (metis of_nat_add of_nat_le_iff of_nat_mult)
qed

lemma read_fd_full:
  assumes "read_fd fs d n = (r, buffer, fs')" and "r = int n" and "0 < n"
  shows "buffer \<noteq> []"
  using assms by (auto simp add: read_fd_def Let_def split: option.splits)

lemma hawk_buffer_sector_eq:
  assumes fits: "track_fits c" and sec: "sector < HAWK_SECTS_PER_TRK c"
  shows "hawk_buffer_sector c cyl head sector u fs =
           (case read_fd fs (fd u) (HAWK_SECTOR_BYTES c) of
              (n, buffer, fs') \<Rightarrow>
                if n \<noteq> int (HAWK_SECTOR_BYTES c) then Inr (0, gaps_laid c sector u, fs')
                else Inr (1, sector_laid c sector u, fs'))"
proof -
  define g where "g = int (HAWK_GAP_BITS c)"
  define y where "y = int (HAWK_SYNC_BITS c)"
  define b where "b = int sector * int (HAWK_RAW_SECTOR_BITS c)"
  define h where "h = int (HAWK_GAP_BITS c div 2)"
  define T where "T = int (HAWK_RAW_TRACK_BITS c)"
  have sb: "0 < HAWK_SECTOR_BYTES c" and sy: "1 \<le> HAWK_SYNC_BITS c"
    and rs: "2 * HAWK_GAP_BITS c + 2 * HAWK_SYNC_BITS c + HAWK_GAP_BITS c div 2
               \<le> HAWK_RAW_SECTOR_BITS c"
    and rt: "HAWK_SECTS_PER_TRK c * HAWK_RAW_SECTOR_BITS c \<le> HAWK_RAW_TRACK_BITS c"
    using fits by (simp_all add: track_fits_def)
  have g0: "0 \<le> g" and y1: "1 \<le> y" and h0: "0 \<le> h" and b0: "0 \<le> b"
    using sy by (simp_all add: g_def y_def h_def b_def)
  have "int (2 * HAWK_GAP_BITS c + 2 * HAWK_SYNC_BITS c + HAWK_GAP_BITS c div 2)
          \<le> int (HAWK_RAW_SECTOR_BITS c)"
    using rs by (rule of_nat_mono)
  then have w: "2 * g + 2 * y + h \<le> int (HAWK_RAW_SECTOR_BITS c)"
    by (simp add: g_def y_def h_def)
  have "b + int (HAWK_RAW_SECTOR_BITS c) \<le> T"
    unfolding b_def T_def using sec rt by (rule sector_span)
  with w have bound: "b + 2 * g + 2 * y + h \<le> T" by simp
  define u1 where "u1 = fill_cells (u\<lparr>data_ptr := b\<rparr>) g 0"
  define u2 where "u2 = fill_cells u1 (y - 1) 0"
  define u3 where "u3 = fill_cells u2 1 1"
  define u4 where "u4 = fill_cells u3 g 0"
  define u5 where "u5 = fill_cells u4 (y - 1) 0"
  define u6 where "u6 = fill_cells u5 1 1"
  define u7 where "u7 = fill_cells u6 h 0"
  have dp: "data_ptr u1 = b + g" "data_ptr u2 = b + g + y - 1" "data_ptr u3 = b + g + y"
      "data_ptr u4 = b + 2 * g + y" "data_ptr u5 = b + 2 * g + 2 * y - 1"
      "data_ptr u6 = b + 2 * g + 2 * y"
    by (simp_all add: u1_def u2_def u3_def u4_def u5_def u6_def)
  have s1: "hawk_set_bits c (u\<lparr>data_ptr := b\<rparr>) g 0 = Inr u1"
    unfolding u1_def using g0 b0 y1 h0 bound
    by (subst hawk_set_bits_fill) (simp_all add: T_def [symmetric])
  have s2: "hawk_set_bits c u1 (y - 1) 0 = Inr u2"
    unfolding u2_def using g0 b0 y1 h0 bound dp
    by (subst hawk_set_bits_fill) (simp_all add: T_def [symmetric])
  have s3: "hawk_set_bits c u2 1 1 = Inr u3"
    unfolding u3_def using g0 b0 y1 h0 bound dp
    by (subst hawk_set_bits_fill) (simp_all add: T_def [symmetric])
  have s4: "hawk_set_bits c u3 g 0 = Inr u4"
    unfolding u4_def using g0 b0 y1 h0 bound dp
    by (subst hawk_set_bits_fill) (simp_all add: T_def [symmetric])
  have s5: "hawk_set_bits c u4 (y - 1) 0 = Inr u5"
    unfolding u5_def using g0 b0 y1 h0 bound dp
    by (subst hawk_set_bits_fill) (simp_all add: T_def [symmetric])
  have s6: "hawk_set_bits c u5 1 1 = Inr u6"
    unfolding u6_def using g0 b0 y1 h0 bound dp
    by (subst hawk_set_bits_fill) (simp_all add: T_def [symmetric])
  have s7: "hawk_set_bits c u6 h 0 = Inr u7"
    unfolding u7_def using g0 b0 y1 h0 bound dp
    by (subst hawk_set_bits_fill) (simp_all add: T_def [symmetric])
  have fd6: "fd u6 = fd u"
    by (simp add: u1_def u2_def u3_def u4_def u5_def u6_def)
  have gl: "gaps_laid c sector u = u6"
    by (simp add: gaps_laid_def u1_def u2_def u3_def u4_def u5_def u6_def g_def y_def b_def)
  have sl: "sector_laid c sector u = u7"
    by (simp add: sector_laid_def gl u7_def h_def)
  obtain n buffer fs' where rd: "read_fd fs (fd u) (HAWK_SECTOR_BYTES c) = (n, buffer, fs')"
    by (cases "read_fd fs (fd u) (HAWK_SECTOR_BYTES c)") auto
  have wr: "hawk_write_bits c u6 (int (HAWK_SECTOR_BYTES c) * 8) buffer = Inr u6"
    if "n = int (HAWK_SECTOR_BYTES c)"
  proof -
    from read_fd_full [OF rd that sb] obtain x xs where "buffer = x # xs"
      by (cases buffer) auto
    then show ?thesis using sb by (simp add: hawk_write_bits_nonzero)
  qed
  show ?thesis
    unfolding hawk_buffer_sector_def gl sl
    using wr
    by (simp add: fault_bind_def Let_def s1 [unfolded b_def g_def] s2 [unfolded y_def]
        s3 s4 [unfolded g_def] s5 [unfolded y_def] s6 s7 [unfolded h_def] fd6 rd
        hawk_write_bits_nonzero)
qed

lemma only_track_changed_refl: "only_track_changed u u"
  by (simp add: only_track_changed_def)

lemma only_track_changed_fill:
  "only_track_changed u u' \<Longrightarrow> only_track_changed u (fill_cells u' n v)"
  by (simp add: only_track_changed_def fill_cells_def)

lemma only_track_changed_fields:
  assumes "only_track_changed u u'"
  shows "fd u' = fd u" "unit_num u' = unit_num u" "seeking u' = seeking u"
    "on_cyl u' = on_cyl u" "addr_ack u' = addr_ack u" "addr_int u' = addr_int u"
    "seek_error u' = seek_error u" "fault u' = fault u" "current_track u' = current_track u"
    "rotation_offset u' = rotation_offset u" "head_pos u' = head_pos u"
    "sector_addr u' = sector_addr u"
proof -
  have e: "u = u'\<lparr>data_ptr := data_ptr u, current_track_data := current_track_data u\<rparr>"
    using assms by (simp add: only_track_changed_def)
  show "fd u' = fd u" using arg_cong [OF e, of fd] by simp
  show "unit_num u' = unit_num u" using arg_cong [OF e, of unit_num] by simp
  show "seeking u' = seeking u" using arg_cong [OF e, of seeking] by simp
  show "on_cyl u' = on_cyl u" using arg_cong [OF e, of on_cyl] by simp
  show "addr_ack u' = addr_ack u" using arg_cong [OF e, of addr_ack] by simp
  show "addr_int u' = addr_int u" using arg_cong [OF e, of addr_int] by simp
  show "seek_error u' = seek_error u" using arg_cong [OF e, of seek_error] by simp
  show "fault u' = fault u" using arg_cong [OF e, of fault] by simp
  show "current_track u' = current_track u" using arg_cong [OF e, of current_track] by simp
  show "rotation_offset u' = rotation_offset u" using arg_cong [OF e, of rotation_offset] by simp
  show "head_pos u' = head_pos u" using arg_cong [OF e, of head_pos] by simp
  show "sector_addr u' = sector_addr u" using arg_cong [OF e, of sector_addr] by simp
qed

lemma only_track_changed_trans:
  assumes "only_track_changed u u'" and "only_track_changed u' u''"
  shows "only_track_changed u u''"
proof -
  have "u''\<lparr>data_ptr := data_ptr u, current_track_data := current_track_data u\<rparr>
          = (u''\<lparr>data_ptr := data_ptr u', current_track_data := current_track_data u'\<rparr>)
              \<lparr>data_ptr := data_ptr u, current_track_data := current_track_data u\<rparr>"
    by simp
  also have "\<dots> = u'\<lparr>data_ptr := data_ptr u, current_track_data := current_track_data u\<rparr>"
    using assms(2) by (simp only: only_track_changed_def)
  also have "\<dots> = u" using assms(1) by (simp only: only_track_changed_def)
  finally show ?thesis by (simp only: only_track_changed_def)
qed

lemma gaps_laid_only_track: "only_track_changed u (gaps_laid c sector u)"
  unfolding gaps_laid_def
  by (intro only_track_changed_fill) (simp add: only_track_changed_def)

lemma sector_laid_only_track: "only_track_changed u (sector_laid c sector u)"
  unfolding sector_laid_def by (intro only_track_changed_fill gaps_laid_only_track)

lemma read_fd_open:
  assumes "fs d = Some f"
  shows "read_fd fs d n =
           (int (min n (length (content f) - pos f)), take n (drop (pos f) (content f)),
            fs(d := Some (f\<lparr>pos := pos f + min n (length (content f) - pos f)\<rparr>)))"
  using assms by (simp add: read_fd_def Let_def min.commute)

lemma read_fd_closed: "fs d = None \<Longrightarrow> read_fd fs d n = (- 1, [], fs)"
  by (simp add: read_fd_def)

lemma hawk_buffer_track_for_closed:
  assumes "track_fits c" and "sector < HAWK_SECTS_PER_TRK c" and "fs (fd u) = None"
  shows "hawk_buffer_track_for c cyl head sector u fs = Inr (0, gaps_laid c sector u, fs)"
  using assms(2)
  by (subst hawk_buffer_track_for.simps)
     (simp add: hawk_buffer_sector_eq [OF assms(1,2)] read_fd_closed [of fs "fd u"] assms(3))

lemma rounds_laid_only_track: "only_track_changed u (rounds_laid c k n u)"
proof (induction n arbitrary: k u)
  case 0
  show ?case by (simp add: only_track_changed_refl)
next
  case (Suc n)
  show ?case
    using only_track_changed_trans [OF sector_laid_only_track Suc.IH] by simp
qed

lemma hawk_buffer_track_for_explicit:
  assumes fits: "track_fits c"
  shows "fs (fd u) = Some f \<Longrightarrow>
         hawk_buffer_track_for c cyl head k u fs =
           (let n = HAWK_SECTS_PER_TRK c - k;
                m = (length (content f) - pos f) div HAWK_SECTOR_BYTES c
            in if n \<le> m
               then Inr (1, rounds_laid c k n u,
                         fs(fd u := Some (f\<lparr>pos := pos f + n * HAWK_SECTOR_BYTES c\<rparr>)))
               else Inr (0, gaps_laid c (k + m) (rounds_laid c k m u),
                         fs(fd u := Some (f\<lparr>pos := max (pos f) (length (content f))\<rparr>))))"
proof (induction "HAWK_SECTS_PER_TRK c - k" arbitrary: k u fs f)
  case 0
  then have "\<not> k < HAWK_SECTS_PER_TRK c" by simp
  then have "hawk_buffer_track_for c cyl head k u fs = Inr (1, u, fs)"
    by (subst hawk_buffer_track_for.simps) simp
  moreover have "fs(fd u := Some (f\<lparr>pos := pos f\<rparr>)) = fs"
    using "0.prems" by (simp add: fun_upd_idem)
  ultimately show ?case
    using "0.hyps" by (simp add: Let_def)
next
  case (Suc n)
  let ?SB = "HAWK_SECTOR_BYTES c"
  have k: "k < HAWK_SECTS_PER_TRK c" using Suc.hyps(2) by simp
  have rest: "HAWK_SECTS_PER_TRK c - k = Suc (HAWK_SECTS_PER_TRK c - Suc k)"
    using k by simp
  have sb: "0 < ?SB" using fits by (simp add: track_fits_def)
  note sec = hawk_buffer_sector_eq [OF fits k, of cyl head u fs]
  define got where "got = min ?SB (length (content f) - pos f)"
  define m where "m = (length (content f) - pos f) div ?SB"
  have rd: "read_fd fs (fd u) ?SB
              = (int got, take ?SB (drop (pos f) (content f)),
                 fs(fd u := Some (f\<lparr>pos := pos f + got\<rparr>)))"
    unfolding got_def using Suc.prems by (rule read_fd_open)
  show ?case
  proof (cases "pos f + ?SB \<le> length (content f)")
    case False
    then have short: "got \<noteq> ?SB" using sb by (simp add: got_def)
    have "length (content f) - pos f < ?SB" using False sb by arith
    then have m0: "m = 0" unfolding m_def by (rule div_less)
    have "hawk_buffer_track_for c cyl head k u fs
            = Inr (0, gaps_laid c k u, fs(fd u := Some (f\<lparr>pos := pos f + got\<rparr>)))"
      using k short
      by (subst hawk_buffer_track_for.simps) (simp add: sec rd)
    moreover have "pos f + got = max (pos f) (length (content f))"
      using False by (simp add: got_def)
    ultimately show ?thesis
      using k by (simp add: Let_def m_def [symmetric] m0)
  next
    case True
    define f1 where "f1 = f\<lparr>pos := pos f + ?SB\<rparr>"
    define fs1 where "fs1 = fs(fd u := Some f1)"
    define u1 where "u1 = sector_laid c k u"
    define m1 where "m1 = (length (content f1) - pos f1) div ?SB"
    have fd1: "fd u1 = fd u"
      using only_track_changed_fields(1) [OF sector_laid_only_track] by (simp add: u1_def)
    have full: "got = ?SB" using True by (simp add: got_def)
    have step: "hawk_buffer_track_for c cyl head k u fs
                  = hawk_buffer_track_for c cyl head (Suc k) u1 fs1"
      using k
      by (subst hawk_buffer_track_for.simps)
         (simp add: sec rd full u1_def fs1_def f1_def)
    have "length (content f) - pos f = (length (content f) - (pos f + ?SB)) + ?SB"
      using True by simp
    then have "m = Suc ((length (content f) - (pos f + ?SB)) div ?SB)"
      unfolding m_def using sb by (metis div_add_self2 Suc_eq_plus1 less_numeral_extra(3))
    then have mm: "m = Suc m1" by (simp add: m1_def f1_def)
    have n: "n = HAWK_SECTS_PER_TRK c - Suc k" using Suc.hyps(2) by simp
    have o: "fs1 (fd u1) = Some f1" by (simp add: fs1_def fd1)
    have run: "hawk_buffer_track_for c cyl head (Suc k) u1 fs1 =
           (if HAWK_SECTS_PER_TRK c - Suc k \<le> m1
               then Inr (1, rounds_laid c (Suc k) (HAWK_SECTS_PER_TRK c - Suc k) u1,
                         fs1(fd u1 := Some (f1\<lparr>pos := pos f1 + (HAWK_SECTS_PER_TRK c - Suc k) * ?SB\<rparr>)))
               else Inr (0, gaps_laid c (Suc k + m1) (rounds_laid c (Suc k) m1 u1),
                         fs1(fd u1 := Some (f1\<lparr>pos := max (pos f1) (length (content f1))\<rparr>))))"
      using Suc.hyps(1) [of "Suc k" fs1 u1 f1] n o by (simp add: Let_def m1_def)
    have mx: "max (pos f + ?SB) (length (content f)) = max (pos f) (length (content f))"
      using True by simp
    show ?thesis
      unfolding step run
      by (simp add: Let_def m_def [symmetric] mm rest fd1 fd1 [unfolded u1_def] fs1_def f1_def u1_def mx add.assoc)
  qed
qed

lemma lseek_set_open:
  "fs d = Some f \<Longrightarrow>
   lseek_set fs d (uint (x :: u32)) = (uint x, fs(d := Some (f\<lparr>pos := unat x\<rparr>)))"
  by (simp add: lseek_set_def)

lemma hawk_buffer_track_closed:
  "fs (fd u) = None \<Longrightarrow> hawk_buffer_track c u cyl head fs = Inr (0, u, fs)"
  by (simp add: hawk_buffer_track_def lseek_set_def)

lemma hawk_buffer_track_explicit:
  assumes fits: "track_fits c" and f: "fs (fd u) = Some f"
  shows "hawk_buffer_track c u cyl head fs =
           (let off = unat ((push_bit 5 cyl OR push_bit 4 head)
                              * (of_nat (HAWK_SECTOR_BYTES c) :: u32));
                n = HAWK_SECTS_PER_TRK c;
                m = (length (content f) - off) div HAWK_SECTOR_BYTES c
            in if n \<le> m
               then Inr (1, rounds_laid c 0 n u,
                         fs(fd u := Some (f\<lparr>pos := off + n * HAWK_SECTOR_BYTES c\<rparr>)))
               else Inr (0, gaps_laid c m (rounds_laid c 0 m u),
                         fs(fd u := Some (f\<lparr>pos := max off (length (content f))\<rparr>))))"
proof -
  define x where "x = (push_bit 5 cyl OR push_bit 4 head) * (of_nat (HAWK_SECTOR_BYTES c) :: u32)"
  define f1 where "f1 = f\<lparr>pos := unat x\<rparr>"
  define fs1 where "fs1 = fs(fd u := Some f1)"
  have ls: "lseek_set fs (fd u) (uint x) = (uint x, fs1)"
    unfolding fs1_def f1_def using f by (rule lseek_set_open)
  have nn: "uint x \<noteq> - 1"
    using uint_ge_0 [of x] by linarith
  have run: "hawk_buffer_track c u cyl head fs = hawk_buffer_track_for c cyl head 0 u fs1"
    using nn by (simp add: hawk_buffer_track_def Let_def x_def [symmetric] ls)
  have "fs1 (fd u) = Some f1" by (simp add: fs1_def)
  with hawk_buffer_track_for_explicit [OF fits, where fs = fs1 and u = u and f = f1
      and k = 0 and cyl = cyl and head = head]
  show ?thesis
    unfolding run Let_def x_def [symmetric] by (simp add: fs1_def f1_def)
qed

lemma hawk_buffer_track_total:
  assumes "track_fits c"
  shows "\<exists>r u' fs'. hawk_buffer_track c u cyl head fs = Inr (r, u', fs')
            \<and> only_track_changed u u'"
proof (cases "fs (fd u)")
  case None
  then show ?thesis
    using hawk_buffer_track_closed [of fs u c cyl head] only_track_changed_refl by blast
next
  case (Some f)
  have "only_track_changed u (rounds_laid c 0 n u)"
    and "only_track_changed u (gaps_laid c m (rounds_laid c 0 m u))" for n m
    using rounds_laid_only_track only_track_changed_trans [OF rounds_laid_only_track gaps_laid_only_track]
    by blast+
  with hawk_buffer_track_explicit [OF assms, where fs = fs and u = u and f = f
      and cyl = cyl and head = head] Some
  show ?thesis
    unfolding Let_def by (metis (full_types))
qed

lemma cyl_in_range:
  assumes "unat (cyl :: u32) < HAWK_NUM_CYLINDERS c" and "HAWK_NUM_CYLINDERS c < 2 ^ 32"
  shows "\<not> (of_nat (HAWK_NUM_CYLINDERS c) :: u32) \<le> cyl"
  using assms by (simp add: word_le_nat_alt unat_of_nat_u32)

section \<open>Properties of seek and Return-To-Zero on the track buffer\<close>

lemma hawk_seek_in_range:
  assumes "seeking (units w p) = 0" and "\<not> (of_nat (HAWK_NUM_CYLINDERS c) :: u32) \<le> cyl"
    and "hawk_buffer_track c
           ((units w p)\<lparr>seeking := 1, addr_ack := 0, addr_int := 0,
                         current_track := push_bit 1 cyl OR head, on_cyl := 0\<rparr>)
           cyl head (files w) = Inr (r, u', fs')"
  shows "hawk_seek c p cyl head w =
           Inr (w\<lparr>units := (units w)(p := u'\<lparr>addr_ack := 1\<rparr>),
                  seek_event := (seek_event w)
                     \<lparr>se_event := (se_event (seek_event w))
                         \<lparr>delta_ns := (if r = 0 then 500 * int (ONE_MILISECOND_NS c)
                                       else (15 * int (ONE_MILISECOND_NS c)) div 2),
                          callback := seek_callback_fn\<rparr>,
                      se_unit := Some p,
                      se_seek_error := (if r = 0 then 1 else 0)\<rparr>,
                  files := fs',
                  scheduled := scheduled w @ [SeekEventRef]\<rparr>)"
  using assms by (simp add: hawk_seek_def Let_def schedule_event_def)

lemma hawk_rtz_pending:
  assumes "track_fits c" and "0 < HAWK_NUM_CYLINDERS c" and "HAWK_NUM_CYLINDERS c < 2 ^ 32"
  shows "hawk_rtz c p w =
           hawk_seek c p 0 0
             (w\<lparr>units := (units w)(p := (units w p)\<lparr>seek_error := 0, fault := 0, seeking := 0\<rparr>)\<rparr>)
         \<and> (\<exists>w'. hawk_rtz c p w = Inr w'
                \<and> seek_error (units w' p) = 0 \<and> fault (units w' p) = 0
                \<and> current_track (units w' p) = 0
                \<and> seeking (units w' p) = 1 \<and> on_cyl (units w' p) = 0
                \<and> addr_int (units w' p) = 0 \<and> addr_ack (units w' p) = 1
                \<and> scheduled w' = scheduled w @ [SeekEventRef]
                \<and> se_unit (seek_event w') = Some p
                \<and> callback (se_event (seek_event w')) = seek_callback_fn)"
proof -
  define w0 where
    "w0 = w\<lparr>units := (units w)(p := (units w p)\<lparr>seek_error := 0, fault := 0, seeking := 0\<rparr>)\<rparr>"
  define u1 where
    "u1 = (units w0 p)\<lparr>seeking := 1, addr_ack := 0, addr_int := 0,
                        current_track := push_bit 1 (0 :: u32) OR 0, on_cyl := 0\<rparr>"
  have idle: "seeking (units w0 p) = 0" by (simp add: w0_def)
  have inr: "\<not> (of_nat (HAWK_NUM_CYLINDERS c) :: u32) \<le> 0"
    using cyl_in_range [of 0 c] assms(2,3) by simp
  from hawk_buffer_track_total [OF assms(1), of u1 0 0 "files w0"]
  obtain r u' fs' where bt: "hawk_buffer_track c u1 0 0 (files w0) = Inr (r, u', fs')"
    and otc: "only_track_changed u1 u'"
    by blast
  note run = hawk_seek_in_range [OF idle inr bt [unfolded u1_def]]
  note fl = only_track_changed_fields [OF otc]
  have "hawk_rtz c p w = hawk_seek c p 0 0 w0"
    by (simp add: hawk_rtz_def w0_def)
  moreover have "seek_error u' = 0" "fault u' = 0" "current_track u' = 0" "seeking u' = 1"
      "on_cyl u' = 0" "addr_int u' = 0"
    unfolding fl by (simp_all add: u1_def w0_def)
  moreover have "scheduled w0 = scheduled w" by (simp add: w0_def)
  ultimately show ?thesis
    unfolding w0_def [symmetric] by (simp add: run)
qed

text \<open>
  C5. For every unit in any state, Return-To-Zero clears \<open>seek_error\<close>, \<open>fault\<close> and
  \<open>seeking\<close> and then issues the seek to cylinder 0, head 0. When it returns,
  \<open>seek_error = 0\<close> and \<open>fault = 0\<close>, \<open>current_track = 0\<close>, and the seek is pending:
  \<open>seeking = 1\<close>, \<open>on_cyl = 0\<close>, the address is acknowledged, and the seek event of the
  unit has been handed to the scheduler.
\<close>

theorem rtz_clears_and_seeks:
  assumes "track_fits c" and "0 < HAWK_NUM_CYLINDERS c" and "HAWK_NUM_CYLINDERS c < 2 ^ 32"
  shows "hawk_rtz c p w =
           hawk_seek c p 0 0
             (w\<lparr>units := (units w)(p := (units w p)\<lparr>seek_error := 0, fault := 0, seeking := 0\<rparr>)\<rparr>)
         \<and> (\<exists>w'. hawk_rtz c p w = Inr w'
                \<and> seek_error (units w' p) = 0 \<and> fault (units w' p) = 0
                \<and> current_track (units w' p) = 0
                \<and> seeking (units w' p) = 1 \<and> on_cyl (units w' p) = 0
                \<and> addr_int (units w' p) = 0 \<and> addr_ack (units w' p) = 1
                \<and> scheduled w' = scheduled w @ [SeekEventRef]
                \<and> se_unit (seek_event w') = Some p
                \<and> callback (se_event (seek_event w')) = seek_callback_fn)"
  using assms by (rule hawk_rtz_pending)

theorem rtz_clears_and_seeks_witness:
  "track_fits example_consts \<and> 0 < HAWK_NUM_CYLINDERS example_consts
   \<and> HAWK_NUM_CYLINDERS example_consts < 2 ^ 32
   \<and> seek_error (units faulted_world 0) = 1 \<and> fault (units faulted_world 0) = 1
   \<and> seeking (units faulted_world 0) = 1 \<and> current_track (units faulted_world 0) = 11
   \<and> (\<exists>w'. hawk_rtz example_consts 0 faulted_world = Inr w'
          \<and> seek_error (units w' 0) = 0 \<and> fault (units w' 0) = 0
          \<and> current_track (units w' 0) = 0 \<and> seeking (units w' 0) = 1
          \<and> scheduled w' = [SeekEventRef])"
proof -
  have h: "track_fits example_consts" "0 < HAWK_NUM_CYLINDERS example_consts"
      "HAWK_NUM_CYLINDERS example_consts < 2 ^ 32"
    by (simp_all add: track_fits_def example_consts_def)
  have s: "scheduled faulted_world = []"
    by (simp add: faulted_world_def empty_store_world_def empty_store_def fresh_world_def)
  have b: "seek_error (units faulted_world 0) = 1 \<and> fault (units faulted_world 0) = 1
   \<and> seeking (units faulted_world 0) = 1 \<and> current_track (units faulted_world 0) = 11"
    by (simp add: faulted_world_def)
  from rtz_clears_and_seeks [OF h, of 0 faulted_world]
  obtain w' where "hawk_rtz example_consts 0 faulted_world = Inr w'"
    "seek_error (units w' 0) = 0" "fault (units w' 0) = 0"
    "current_track (units w' 0) = 0" "seeking (units w' 0) = 1"
    "scheduled w' = scheduled faulted_world @ [SeekEventRef]"
    by blast
  then show ?thesis
    using h b s by (intro conjI exI [of _ w']) simp_all
qed

text \<open>
  C3. A seek to an in-range cylinder on a unit that is not seeking, whose track
  materialization fails (the positioning fails or a read comes back short), still
  schedules the seek event, with a delay of 500 ms and the pending error set; when that
  event fires, the unit has \<open>seek_error\<close> latched, \<open>on_cyl = 1\<close> and \<open>seeking = 0\<close>.
\<close>

theorem failed_materialization_seek_error:
  assumes "seeking (units w p) = 0"
    and "unat cyl < HAWK_NUM_CYLINDERS c" and "HAWK_NUM_CYLINDERS c < 2 ^ 32"
    and "\<exists>u' fs'. hawk_buffer_track c
           ((units w p)\<lparr>seeking := 1, addr_ack := 0, addr_int := 0,
                         current_track := push_bit 1 cyl OR head, on_cyl := 0\<rparr>)
           cyl head (files w) = Inr (0, u', fs')"
  shows "\<exists>w'. hawk_seek c p cyl head w = Inr w'
            \<and> scheduled w' = scheduled w @ [SeekEventRef]
            \<and> delta_ns (se_event (seek_event w')) = 500 * int (ONE_MILISECOND_NS c)
            \<and> callback (se_event (seek_event w')) = seek_callback_fn
            \<and> se_unit (seek_event w') = Some p
            \<and> se_seek_error (seek_event w') = 1
            \<and> (\<exists>w''. hawk_seek_callback SeekEventRef late_ns w' = Inr w''
                   \<and> seek_error (units w'' p) = 1 \<and> on_cyl (units w'' p) = 1
                   \<and> seeking (units w'' p) = 0)"
proof -
  from assms(4) obtain u' fs' where bt: "hawk_buffer_track c
           ((units w p)\<lparr>seeking := 1, addr_ack := 0, addr_int := 0,
                         current_track := push_bit 1 cyl OR head, on_cyl := 0\<rparr>)
           cyl head (files w) = Inr (0, u', fs')"
    by blast
  note run = hawk_seek_in_range [OF assms(1) cyl_in_range [OF assms(2,3)] bt]
  show ?thesis
    unfolding run
    by (simp add: hawk_seek_callback_def dsk_hawk_changed_def Let_def)
qed

theorem failed_materialization_seek_error_witness:
  "seeking (units empty_store_world 0) = 0
   \<and> unat (5 :: u32) < HAWK_NUM_CYLINDERS example_consts
   \<and> HAWK_NUM_CYLINDERS example_consts < 2 ^ 32
   \<and> (\<exists>u' fs'. hawk_buffer_track example_consts
           ((units empty_store_world 0)\<lparr>seeking := 1, addr_ack := 0, addr_int := 0,
                         current_track := push_bit 1 (5 :: u32) OR 0, on_cyl := 0\<rparr>)
           5 0 (files empty_store_world) = Inr (0, u', fs'))
   \<and> (\<exists>w'. hawk_seek example_consts 0 5 0 empty_store_world = Inr w'
          \<and> scheduled w' = [SeekEventRef]
          \<and> delta_ns (se_event (seek_event w')) = 500000000
          \<and> se_seek_error (seek_event w') = 1
          \<and> (\<exists>w''. hawk_seek_callback SeekEventRef 0 w' = Inr w''
                 \<and> seek_error (units w'' 0) = 1 \<and> on_cyl (units w'' 0) = 1))"
proof -
  let ?u = "(units empty_store_world 0)\<lparr>seeking := 1, addr_ack := 0, addr_int := 0,
                         current_track := push_bit 1 (5 :: u32) OR 0, on_cyl := 0\<rparr>"
  have fits: "track_fits example_consts"
    by (simp add: track_fits_def example_consts_def)
  have op: "files empty_store_world (fd ?u) = Some \<lparr>content = [], pos = 0\<rparr>"
    by (simp add: empty_store_world_def empty_store_def fresh_world_def fresh_unit_def)
  have h: "seeking (units empty_store_world 0) = 0"
      "unat (5 :: u32) < HAWK_NUM_CYLINDERS example_consts"
      "HAWK_NUM_CYLINDERS example_consts < 2 ^ 32"
    by (simp_all add: empty_store_world_def empty_store_def fresh_world_def fresh_unit_def example_consts_def)
  have bt: "\<exists>u' fs'. hawk_buffer_track example_consts ?u 5 0 (files empty_store_world)
              = Inr (0, u', fs')"
    using hawk_buffer_track_explicit [OF fits, where fs = "files empty_store_world" and u = ?u
        and f = "\<lparr>content = [], pos = 0\<rparr>" and cyl = 5 and head = 0] op
    by (auto simp add: Let_def example_consts_def)
  from failed_materialization_seek_error [OF h bt, of 0]
  obtain w' w'' where "hawk_seek example_consts 0 5 0 empty_store_world = Inr w'"
    "scheduled w' = scheduled empty_store_world @ [SeekEventRef]"
    "delta_ns (se_event (seek_event w')) = 500 * int (ONE_MILISECOND_NS example_consts)"
    "se_seek_error (seek_event w') = 1"
    "hawk_seek_callback SeekEventRef 0 w' = Inr w''"
    "seek_error (units w'' 0) = 1" "on_cyl (units w'' 0) = 1"
    by blast
  then have "\<exists>w'. hawk_seek example_consts 0 5 0 empty_store_world = Inr w'
          \<and> scheduled w' = [SeekEventRef]
          \<and> delta_ns (se_event (seek_event w')) = 500000000
          \<and> se_seek_error (seek_event w') = 1
          \<and> (\<exists>w''. hawk_seek_callback SeekEventRef 0 w' = Inr w''
                 \<and> seek_error (units w'' 0) = 1 \<and> on_cyl (units w'' 0) = 1)"
    by (intro exI [of _ w'] conjI exI [of _ w''])
       (simp_all add: empty_store_world_def empty_store_def fresh_world_def example_consts_def)
  with h bt show ?thesis by blast
qed

text \<open>
  C10. A seek request on a unit whose \<open>seeking\<close> flag is set returns at once and leaves
  the whole state as it was: every field of the unit, the track buffer, the files and the
  scheduler. So after an address-interlock fault, which leaves \<open>seeking\<close> set, every
  further seek request is ignored; Return-To-Zero clears \<open>seeking\<close>, and its own seek to
  track 0 is carried out and scheduled.
\<close>

theorem seek_ignored_while_seeking:
  "(seeking (units w p) \<noteq> 0 \<longrightarrow> hawk_seek c p cyl head w = Inr w)
   \<and> (seeking (units w p) = 0 \<and> HAWK_NUM_CYLINDERS c \<le> unat cyl \<longrightarrow>
        (\<exists>w1. hawk_seek c p cyl head w = Inr w1
           \<and> seeking (units w1 p) \<noteq> 0
           \<and> (\<forall>cyl' head'. hawk_seek c p cyl' head' w1 = Inr w1)
           \<and> (track_fits c \<and> 0 < HAWK_NUM_CYLINDERS c \<and> HAWK_NUM_CYLINDERS c < 2 ^ 32 \<longrightarrow>
                (\<exists>w2. hawk_rtz c p w1 = Inr w2
                   \<and> current_track (units w2 p) = 0 \<and> addr_int (units w2 p) = 0
                   \<and> scheduled w2 = scheduled w1 @ [SeekEventRef]))))"
proof (intro conjI impI)
  assume "seeking (units w p) \<noteq> 0"
  then show "hawk_seek c p cyl head w = Inr w" by (simp add: hawk_seek_def)
next
  assume a: "seeking (units w p) = 0 \<and> HAWK_NUM_CYLINDERS c \<le> unat cyl"
  define w1 where
    "w1 = w\<lparr>units := (units w)(p := (units w p)\<lparr>seeking := 1, addr_ack := 0, addr_int := 0,
                         current_track := push_bit 1 cyl OR head, on_cyl := 0, addr_int := 1\<rparr>)\<rparr>"
  have run: "hawk_seek c p cyl head w = Inr w1"
    using a cyl_out_of_range [of c cyl] by (simp add: hawk_seek_def Let_def w1_def)
  have busy: "seeking (units w1 p) \<noteq> 0" by (simp add: w1_def)
  then have ign: "\<forall>cyl' head'. hawk_seek c p cyl' head' w1 = Inr w1"
    by (simp add: hawk_seek_def)
  have rtz: "\<exists>w2. hawk_rtz c p w1 = Inr w2
                   \<and> current_track (units w2 p) = 0 \<and> addr_int (units w2 p) = 0
                   \<and> scheduled w2 = scheduled w1 @ [SeekEventRef]"
    if f: "track_fits c \<and> 0 < HAWK_NUM_CYLINDERS c \<and> HAWK_NUM_CYLINDERS c < 2 ^ 32"
  proof -
    from f have "track_fits c" "0 < HAWK_NUM_CYLINDERS c" "HAWK_NUM_CYLINDERS c < 2 ^ 32"
      by simp_all
    from hawk_rtz_pending [OF this, of p w1, THEN conjunct2]
    obtain w2 where "hawk_rtz c p w1 = Inr w2" "current_track (units w2 p) = 0"
      "addr_int (units w2 p) = 0" "scheduled w2 = scheduled w1 @ [SeekEventRef]"
      by blast
    then show ?thesis by (intro exI [of _ w2]) simp
  qed
  from run busy ign rtz
  show "\<exists>w1. hawk_seek c p cyl head w = Inr w1
           \<and> seeking (units w1 p) \<noteq> 0
           \<and> (\<forall>cyl' head'. hawk_seek c p cyl' head' w1 = Inr w1)
           \<and> (track_fits c \<and> 0 < HAWK_NUM_CYLINDERS c \<and> HAWK_NUM_CYLINDERS c < 2 ^ 32 \<longrightarrow>
                (\<exists>w2. hawk_rtz c p w1 = Inr w2
                   \<and> current_track (units w2 p) = 0 \<and> addr_int (units w2 p) = 0
                   \<and> scheduled w2 = scheduled w1 @ [SeekEventRef]))"
    by blast
qed

theorem seek_ignored_while_seeking_witness:
  "seeking (units faulted_world 0) \<noteq> 0
   \<and> hawk_seek example_consts 0 5 1 faulted_world = Inr faulted_world
   \<and> seeking (units empty_store_world 0) = 0
   \<and> HAWK_NUM_CYLINDERS example_consts \<le> unat (406 :: u32)
   \<and> track_fits example_consts \<and> 0 < HAWK_NUM_CYLINDERS example_consts
   \<and> HAWK_NUM_CYLINDERS example_consts < 2 ^ 32
   \<and> (\<exists>w1. hawk_seek example_consts 0 406 0 empty_store_world = Inr w1
          \<and> hawk_seek example_consts 0 5 1 w1 = Inr w1
          \<and> (\<exists>w2. hawk_rtz example_consts 0 w1 = Inr w2 \<and> current_track (units w2 0) = 0
                 \<and> scheduled w2 = scheduled w1 @ [SeekEventRef]))"
proof -
  have a: "seeking (units faulted_world 0) \<noteq> 0"
    by (simp add: faulted_world_def)
  have b: "seeking (units empty_store_world 0) = 0"
      "HAWK_NUM_CYLINDERS example_consts \<le> unat (406 :: u32)"
    by (simp_all add: empty_store_world_def empty_store_def fresh_world_def fresh_unit_def example_consts_def)
  have f: "track_fits example_consts" "0 < HAWK_NUM_CYLINDERS example_consts"
      "HAWK_NUM_CYLINDERS example_consts < 2 ^ 32"
    by (simp_all add: track_fits_def example_consts_def)
  have 1: "hawk_seek example_consts 0 5 1 faulted_world = Inr faulted_world"
    using seek_ignored_while_seeking [of faulted_world 0 example_consts 5 1] a by blast
  have 2: "\<exists>w1. hawk_seek example_consts 0 406 0 empty_store_world = Inr w1
          \<and> hawk_seek example_consts 0 5 1 w1 = Inr w1
          \<and> (\<exists>w2. hawk_rtz example_consts 0 w1 = Inr w2 \<and> current_track (units w2 0) = 0
                 \<and> scheduled w2 = scheduled w1 @ [SeekEventRef])"
    using seek_ignored_while_seeking [of empty_store_world 0 example_consts 406 0] b f by blast
  from a 1 b f 2 show ?thesis by blast
qed

section \<open>Properties of the track buffer after materialization\<close>

lemma fill_cells_cell:
  "current_track_data (fill_cells u n v) i =
     (if data_ptr u \<le> i \<and> i < data_ptr u + n then v else current_track_data u i)"
  by (simp add: fill_cells_def)

lemma sector_laid_below:
  assumes "track_fits c" and "i < int s * int (HAWK_RAW_SECTOR_BITS c)"
  shows "current_track_data (sector_laid c s u) i = current_track_data u i"
    and "current_track_data (gaps_laid c s u) i = current_track_data u i"
proof -
  have "1 \<le> int (HAWK_SYNC_BITS c)" using assms(1) by (simp add: track_fits_def)
  then show "current_track_data (sector_laid c s u) i = current_track_data u i"
    and "current_track_data (gaps_laid c s u) i = current_track_data u i"
    using assms(2) by (simp_all add: sector_laid_def gaps_laid_def fill_cells_cell)
qed

lemma sector_laid_first_gap:
  assumes "track_fits c" and "0 \<le> j" and "j < int (HAWK_GAP_BITS c)"
  shows "current_track_data (sector_laid c s u) (int s * int (HAWK_RAW_SECTOR_BITS c) + j) = 0"
    and "current_track_data (gaps_laid c s u) (int s * int (HAWK_RAW_SECTOR_BITS c) + j) = 0"
proof -
  have "1 \<le> int (HAWK_SYNC_BITS c)" using assms(1) by (simp add: track_fits_def)
  then show
    "current_track_data (sector_laid c s u) (int s * int (HAWK_RAW_SECTOR_BITS c) + j) = 0"
    "current_track_data (gaps_laid c s u) (int s * int (HAWK_RAW_SECTOR_BITS c) + j) = 0"
    using assms(2,3) by (simp_all add: sector_laid_def gaps_laid_def fill_cells_cell)
qed

lemma sector_laid_addr_cell:
  assumes "track_fits c" and "0 < HAWK_GAP_BITS c"
  shows "current_track_data (sector_laid c s u)
           (int s * int (HAWK_RAW_SECTOR_BITS c) + int (HAWK_GAP_BITS c) + int (HAWK_SYNC_BITS c)) = 0"
proof -
  have "1 \<le> int (HAWK_SYNC_BITS c)" using assms(1) by (simp add: track_fits_def)
  then show ?thesis
    using assms(2) by (simp add: sector_laid_def gaps_laid_def fill_cells_cell)
qed

lemma rounds_laid_below:
  assumes "track_fits c"
  shows "i < int k * int (HAWK_RAW_SECTOR_BITS c) \<Longrightarrow>
         current_track_data (rounds_laid c k n u) i = current_track_data u i"
proof (induction n arbitrary: k u)
  case 0
  show ?case by simp
next
  case (Suc n)
  have "int k * int (HAWK_RAW_SECTOR_BITS c) \<le> int (Suc k) * int (HAWK_RAW_SECTOR_BITS c)"
    by (intro mult_right_mono) simp_all
  with Suc.prems have "i < int (Suc k) * int (HAWK_RAW_SECTOR_BITS c)" by linarith
  then have "current_track_data (rounds_laid c (Suc k) n (sector_laid c k u)) i
              = current_track_data (sector_laid c k u) i"
    by (rule Suc.IH)
  then show ?case
    using sector_laid_below(1) [OF assms Suc.prems] by simp
qed

lemma rounds_laid_addr_cell:
  assumes fits: "track_fits c" and gap: "0 < HAWK_GAP_BITS c"
  shows "k \<le> s \<Longrightarrow> s < k + n \<Longrightarrow>
         current_track_data (rounds_laid c k n u)
           (int s * int (HAWK_RAW_SECTOR_BITS c) + int (HAWK_GAP_BITS c) + int (HAWK_SYNC_BITS c)) = 0"
proof (induction n arbitrary: k u)
  case 0
  then show ?case by simp
next
  case (Suc n)
  let ?R = "int (HAWK_RAW_SECTOR_BITS c)"
  let ?i = "int s * ?R + int (HAWK_GAP_BITS c) + int (HAWK_SYNC_BITS c)"
  show ?case
  proof (cases "s = k")
    case True
    have "2 * HAWK_GAP_BITS c + 2 * HAWK_SYNC_BITS c + HAWK_GAP_BITS c div 2
            \<le> HAWK_RAW_SECTOR_BITS c"
      using fits by (simp add: track_fits_def)
    then have "HAWK_GAP_BITS c + HAWK_SYNC_BITS c < HAWK_RAW_SECTOR_BITS c"
      using gap by simp
    then have "int (HAWK_GAP_BITS c) + int (HAWK_SYNC_BITS c) < ?R" by linarith
    then have "?i < int (Suc k) * ?R" using True by (simp add: algebra_simps)
    then have "current_track_data (rounds_laid c (Suc k) n (sector_laid c k u)) ?i
                 = current_track_data (sector_laid c k u) ?i"
      by (rule rounds_laid_below [OF fits])
    then show ?thesis
      using sector_laid_addr_cell [OF fits gap, of k u] True by simp
  next
    case False
    then have "Suc k \<le> s" "s < Suc k + n" using Suc.prems by simp_all
    then show ?thesis using Suc.IH [of "Suc k" "sector_laid c k u"] by simp
  qed
qed

lemma sector_laid_sync_marks:
  assumes "track_fits c"
  shows "current_track_data (sector_laid c s u)
           (int s * int (HAWK_RAW_SECTOR_BITS c) + int (HAWK_GAP_BITS c)
              + int (HAWK_SYNC_BITS c) - 1) = 1"
    and "current_track_data (gaps_laid c s u)
           (int s * int (HAWK_RAW_SECTOR_BITS c) + int (HAWK_GAP_BITS c)
              + int (HAWK_SYNC_BITS c) - 1) = 1"
    and "current_track_data (sector_laid c s u)
           (int s * int (HAWK_RAW_SECTOR_BITS c) + 2 * int (HAWK_GAP_BITS c)
              + 2 * int (HAWK_SYNC_BITS c) - 1) = 1"
    and "current_track_data (gaps_laid c s u)
           (int s * int (HAWK_RAW_SECTOR_BITS c) + 2 * int (HAWK_GAP_BITS c)
              + 2 * int (HAWK_SYNC_BITS c) - 1) = 1"
proof -
  have y: "1 \<le> int (HAWK_SYNC_BITS c)" using assms by (simp add: track_fits_def)
  show "current_track_data (sector_laid c s u)
           (int s * int (HAWK_RAW_SECTOR_BITS c) + int (HAWK_GAP_BITS c)
              + int (HAWK_SYNC_BITS c) - 1) = 1"
    and "current_track_data (gaps_laid c s u)
           (int s * int (HAWK_RAW_SECTOR_BITS c) + int (HAWK_GAP_BITS c)
              + int (HAWK_SYNC_BITS c) - 1) = 1"
    and "current_track_data (sector_laid c s u)
           (int s * int (HAWK_RAW_SECTOR_BITS c) + 2 * int (HAWK_GAP_BITS c)
              + 2 * int (HAWK_SYNC_BITS c) - 1) = 1"
    and "current_track_data (gaps_laid c s u)
           (int s * int (HAWK_RAW_SECTOR_BITS c) + 2 * int (HAWK_GAP_BITS c)
              + 2 * int (HAWK_SYNC_BITS c) - 1) = 1"
    using y by (simp_all add: sector_laid_def gaps_laid_def fill_cells_cell)
qed

lemma sector_laid_above:
  assumes "int s * int (HAWK_RAW_SECTOR_BITS c) + 2 * int (HAWK_GAP_BITS c)
             + 2 * int (HAWK_SYNC_BITS c) + int (HAWK_GAP_BITS c div 2) \<le> i"
  shows "current_track_data (sector_laid c s u) i = current_track_data u i"
  using assms by (simp add: sector_laid_def gaps_laid_def fill_cells_cell)

lemma gaps_laid_above:
  assumes "int s * int (HAWK_RAW_SECTOR_BITS c) + 2 * int (HAWK_GAP_BITS c)
             + 2 * int (HAWK_SYNC_BITS c) \<le> i"
  shows "current_track_data (gaps_laid c s u) i = current_track_data u i"
  using assms by (simp add: gaps_laid_def fill_cells_cell)

lemma rounds_laid_above:
  assumes fits: "track_fits c"
  shows "int (k + n) * int (HAWK_RAW_SECTOR_BITS c) \<le> i \<Longrightarrow>
         current_track_data (rounds_laid c k n u) i = current_track_data u i"
proof (induction n arbitrary: k u)
  case 0
  show ?case by simp
next
  case (Suc n)
  let ?R = "int (HAWK_RAW_SECTOR_BITS c)"
  have w: "2 * int (HAWK_GAP_BITS c) + 2 * int (HAWK_SYNC_BITS c) + int (HAWK_GAP_BITS c div 2)
             \<le> ?R"
  proof -
    have "2 * HAWK_GAP_BITS c + 2 * HAWK_SYNC_BITS c + HAWK_GAP_BITS c div 2
            \<le> HAWK_RAW_SECTOR_BITS c"
      using fits by (simp add: track_fits_def)
    then show ?thesis by linarith
  qed
  have "int (Suc k) * ?R \<le> int (k + Suc n) * ?R"
    by (intro mult_right_mono) simp_all
  with Suc.prems have i: "int (Suc k) * ?R \<le> i" by linarith
  then have "int k * ?R + ?R \<le> i" by (simp add: algebra_simps)
  with w have ab: "int k * ?R + 2 * int (HAWK_GAP_BITS c) + 2 * int (HAWK_SYNC_BITS c)
                     + int (HAWK_GAP_BITS c div 2) \<le> i"
    by linarith
  have "int (Suc k + n) * ?R \<le> i" using Suc.prems by simp
  then have "current_track_data (rounds_laid c (Suc k) n (sector_laid c k u)) i
               = current_track_data (sector_laid c k u) i"
    by (rule Suc.IH)
  also have "\<dots> = current_track_data u i" using ab by (rule sector_laid_above)
  finally show ?case by simp
qed

lemma rounds_laid_cell_of_round:
  assumes fits: "track_fits c"
    and x: "\<And>v. current_track_data (sector_laid c s v) i = x"
    and hi: "i < int (Suc s) * int (HAWK_RAW_SECTOR_BITS c)"
  shows "k \<le> s \<Longrightarrow> s < k + n \<Longrightarrow> current_track_data (rounds_laid c k n u) i = x"
proof (induction n arbitrary: k u)
  case 0
  then show ?case by simp
next
  case (Suc n)
  show ?case
  proof (cases "s = k")
    case True
    have "current_track_data (rounds_laid c (Suc k) n (sector_laid c k u)) i
            = current_track_data (sector_laid c k u) i"
      using hi True by (intro rounds_laid_below [OF fits]) simp
    then show ?thesis using x [of u] True by simp
  next
    case False
    then have "Suc k \<le> s" "s < Suc k + n" using Suc.prems by simp_all
    then show ?thesis using Suc.IH [of "Suc k" "sector_laid c k u"] by simp
  qed
qed

lemma failed_rounds_cell:
  assumes fits: "track_fits c" and s: "s \<le> m"
    and xs: "\<And>v. current_track_data (sector_laid c s v) i = x"
    and xg: "\<And>v. current_track_data (gaps_laid c s v) i = x"
    and hi: "i < int (Suc s) * int (HAWK_RAW_SECTOR_BITS c)"
  shows "current_track_data (gaps_laid c m (rounds_laid c 0 m u)) i = x"
proof (cases "s = m")
  case True
  then show ?thesis using xg by simp
next
  case False
  then have lt: "s < m" using s by simp
  then have "int (Suc s) * int (HAWK_RAW_SECTOR_BITS c) \<le> int m * int (HAWK_RAW_SECTOR_BITS c)"
    by (intro mult_right_mono) simp_all
  with hi have "i < int m * int (HAWK_RAW_SECTOR_BITS c)" by linarith
  then have "current_track_data (gaps_laid c m (rounds_laid c 0 m u)) i
               = current_track_data (rounds_laid c 0 m u) i"
    by (rule sector_laid_below(2) [OF fits])
  also have "\<dots> = x"
    using lt by (intro rounds_laid_cell_of_round [OF fits xs hi]) simp_all
  finally show ?thesis .
qed

text \<open>
  C8, as amended. When the backing store ends before the last sector of the track, the
  read of sector \<open>m\<close> comes back short, where \<open>m\<close> is the number of whole sectors the store
  holds from the track's offset on, and the materialization reports failure (returns 0).
  It is not atomic: the unit is left as the \<open>m\<close> rounds before the failing read and the
  gap and sync fields of round \<open>m\<close> wrote it. In every sector up to and including \<open>m\<close> the
  first gap is zero and both sync fields end in their one, whatever the buffer held; from
  the end of the second sync field of sector \<open>m\<close> on, the cells are as they were. Nothing
  but the cells and the cursor of the unit changes.
\<close>

theorem materialization_failure_not_atomic:
  assumes fits: "track_fits c" and f: "fs (fd u) = Some f"
    and sects: "0 < HAWK_SECTS_PER_TRK c"
    and short: "length (content f)
             < unat ((push_bit 5 cyl OR push_bit 4 head) * (of_nat (HAWK_SECTOR_BYTES c) :: u32))
               + HAWK_SECTS_PER_TRK c * HAWK_SECTOR_BYTES c"
  shows "let off = unat ((push_bit 5 cyl OR push_bit 4 head)
                           * (of_nat (HAWK_SECTOR_BYTES c) :: u32));
             m = (length (content f) - off) div HAWK_SECTOR_BYTES c;
             u' = gaps_laid c m (rounds_laid c 0 m u);
             R = int (HAWK_RAW_SECTOR_BITS c);
             G = int (HAWK_GAP_BITS c);
             Y = int (HAWK_SYNC_BITS c)
         in m < HAWK_SECTS_PER_TRK c
            \<and> hawk_buffer_track c u cyl head fs
                = Inr (0, u', fs(fd u := Some (f\<lparr>pos := max off (length (content f))\<rparr>)))
            \<and> only_track_changed u u'
            \<and> (\<forall>s j. s \<le> m \<and> 0 \<le> j \<and> j < G \<longrightarrow>
                   current_track_data u' (int s * R + j) = 0)
            \<and> (\<forall>s. s \<le> m \<longrightarrow>
                   current_track_data u' (int s * R + G + Y - 1) = 1
                   \<and> current_track_data u' (int s * R + 2 * G + 2 * Y - 1) = 1)
            \<and> (\<forall>i. int m * R + 2 * G + 2 * Y \<le> i \<longrightarrow>
                   current_track_data u' i = current_track_data u i)"
proof -
  define off where
    "off = unat ((push_bit 5 cyl OR push_bit 4 head) * (of_nat (HAWK_SECTOR_BYTES c) :: u32))"
  define m where "m = (length (content f) - off) div HAWK_SECTOR_BYTES c"
  define u' where "u' = gaps_laid c m (rounds_laid c 0 m u)"
  define R where "R = int (HAWK_RAW_SECTOR_BITS c)"
  define G where "G = int (HAWK_GAP_BITS c)"
  define Y where "Y = int (HAWK_SYNC_BITS c)"
  have sb: "0 < HAWK_SECTOR_BYTES c" using fits by (simp add: track_fits_def)
  have y1: "1 \<le> Y" using fits by (simp add: track_fits_def Y_def)
  have g0: "0 \<le> G" by (simp add: G_def)
  have "2 * HAWK_GAP_BITS c + 2 * HAWK_SYNC_BITS c + HAWK_GAP_BITS c div 2
          \<le> HAWK_RAW_SECTOR_BITS c"
    using fits by (simp add: track_fits_def)
  then have w: "2 * G + 2 * Y \<le> R" unfolding G_def Y_def R_def by linarith
  have "0 < HAWK_SECTS_PER_TRK c * HAWK_SECTOR_BYTES c" using sects sb by simp
  then have "length (content f) - off < HAWK_SECTS_PER_TRK c * HAWK_SECTOR_BYTES c"
    using short unfolding off_def by linarith
  then have m: "m < HAWK_SECTS_PER_TRK c"
    unfolding m_def using sb by (simp add: div_less_iff_less_mult)
  then have run: "hawk_buffer_track c u cyl head fs
          = Inr (0, u', fs(fd u := Some (f\<lparr>pos := max off (length (content f))\<rparr>)))"
    using hawk_buffer_track_explicit [OF fits, where fs = fs and u = u and f = f
        and cyl = cyl and head = head] f
    by (simp add: Let_def off_def [symmetric] m_def [symmetric] u'_def)
  have otc: "only_track_changed u u'"
    unfolding u'_def
    using only_track_changed_trans [OF rounds_laid_only_track gaps_laid_only_track] .
  have suc: "int (Suc s) * R = int s * R + R" for s by (simp add: algebra_simps)
  have gap: "current_track_data u' (int s * R + j) = 0"
    if "s \<le> m" "0 \<le> j" "j < G" for s j
    unfolding u'_def
  proof (rule failed_rounds_cell [OF fits that(1)])
    show "current_track_data (sector_laid c s v) (int s * R + j) = 0" for v
      unfolding R_def using that(2,3) unfolding G_def by (rule sector_laid_first_gap(1) [OF fits])
    show "current_track_data (gaps_laid c s v) (int s * R + j) = 0" for v
      unfolding R_def using that(2,3) unfolding G_def by (rule sector_laid_first_gap(2) [OF fits])
    show "int s * R + j < int (Suc s) * int (HAWK_RAW_SECTOR_BITS c)"
      unfolding R_def [symmetric] suc using that(3) w y1 g0 by linarith
  qed
  have mark1: "current_track_data u' (int s * R + G + Y - 1) = 1" if "s \<le> m" for s
    unfolding u'_def
  proof (rule failed_rounds_cell [OF fits that])
    show "current_track_data (sector_laid c s v) (int s * R + G + Y - 1) = 1" for v
      unfolding R_def G_def Y_def by (rule sector_laid_sync_marks(1) [OF fits])
    show "current_track_data (gaps_laid c s v) (int s * R + G + Y - 1) = 1" for v
      unfolding R_def G_def Y_def by (rule sector_laid_sync_marks(2) [OF fits])
    show "int s * R + G + Y - 1 < int (Suc s) * int (HAWK_RAW_SECTOR_BITS c)"
      unfolding R_def [symmetric] suc using w y1 g0 by linarith
  qed
  have mark2: "current_track_data u' (int s * R + 2 * G + 2 * Y - 1) = 1" if "s \<le> m" for s
    unfolding u'_def
  proof (rule failed_rounds_cell [OF fits that])
    show "current_track_data (sector_laid c s v) (int s * R + 2 * G + 2 * Y - 1) = 1" for v
      unfolding R_def G_def Y_def by (rule sector_laid_sync_marks(3) [OF fits])
    show "current_track_data (gaps_laid c s v) (int s * R + 2 * G + 2 * Y - 1) = 1" for v
      unfolding R_def G_def Y_def by (rule sector_laid_sync_marks(4) [OF fits])
    show "int s * R + 2 * G + 2 * Y - 1 < int (Suc s) * int (HAWK_RAW_SECTOR_BITS c)"
      unfolding R_def [symmetric] suc using w y1 g0 by linarith
  qed
  have stale: "current_track_data u' i = current_track_data u i"
    if "int m * R + 2 * G + 2 * Y \<le> i" for i
  proof -
    have "current_track_data u' i = current_track_data (rounds_laid c 0 m u) i"
      unfolding u'_def using that unfolding R_def G_def Y_def by (rule gaps_laid_above)
    also have "\<dots> = current_track_data u i"
    proof (rule rounds_laid_above [OF fits])
      show "int (0 + m) * int (HAWK_RAW_SECTOR_BITS c) \<le> i"
        using that g0 y1 unfolding R_def [symmetric] by simp
    qed
    finally show ?thesis .
  qed
  show ?thesis
    unfolding Let_def off_def [symmetric] m_def [symmetric] u'_def [symmetric]
      R_def [symmetric] G_def [symmetric] Y_def [symmetric]
    using m run otc gap mark1 mark2 stale by blast
qed

theorem materialization_failure_not_atomic_witness:
  "track_fits example_consts
   \<and> one_sector_store (fd stale_unit) = Some \<lparr>content = replicate 400 0, pos = 0\<rparr>
   \<and> 0 < HAWK_SECTS_PER_TRK example_consts
   \<and> length (content \<lparr>content = replicate 400 (0 :: u8), pos = 0\<rparr>)
        < unat ((push_bit 5 0 OR push_bit 4 0) * (of_nat (HAWK_SECTOR_BYTES example_consts) :: u32))
          + HAWK_SECTS_PER_TRK example_consts * HAWK_SECTOR_BYTES example_consts
   \<and> hawk_buffer_track example_consts stale_unit 0 0 one_sector_store
       = Inr (0, gaps_laid example_consts 1 (rounds_laid example_consts 0 1 stale_unit),
              one_sector_store(3 := Some \<lparr>content = replicate 400 0, pos = 400\<rparr>))
   \<and> current_track_data (gaps_laid example_consts 1 (rounds_laid example_consts 0 1 stale_unit)) 0 = 0
   \<and> current_track_data (gaps_laid example_consts 1 (rounds_laid example_consts 0 1 stale_unit)) 3724 = 0
   \<and> current_track_data (gaps_laid example_consts 1 (rounds_laid example_consts 0 1 stale_unit)) 3931 = 1
   \<and> current_track_data (gaps_laid example_consts 1 (rounds_laid example_consts 0 1 stale_unit)) 4139 = 1
   \<and> current_track_data (gaps_laid example_consts 1 (rounds_laid example_consts 0 1 stale_unit)) 4140
       = current_track_data stale_unit 4140"
proof -
  have h: "track_fits example_consts"
      "one_sector_store (fd stale_unit) = Some \<lparr>content = replicate 400 0, pos = 0\<rparr>"
      "0 < HAWK_SECTS_PER_TRK example_consts"
      "length (content \<lparr>content = replicate 400 (0 :: u8), pos = 0\<rparr>)
        < unat ((push_bit 5 0 OR push_bit 4 0) * (of_nat (HAWK_SECTOR_BYTES example_consts) :: u32))
          + HAWK_SECTS_PER_TRK example_consts * HAWK_SECTOR_BYTES example_consts"
    by (simp_all add: track_fits_def example_consts_def one_sector_store_def stale_unit_def
        fresh_unit_def)
  note t = materialization_failure_not_atomic [where c = example_consts and fs = one_sector_store
      and u = stale_unit and f = "\<lparr>content = replicate 400 0, pos = 0\<rparr>" and cyl = 0 and head = 0,
      OF h, unfolded Let_def]
  let ?u' = "gaps_laid example_consts 1 (rounds_laid example_consts 0 1 stale_unit)"
  have fdu: "fd stale_unit = 3" by (simp add: stale_unit_def fresh_unit_def)
  have run: "hawk_buffer_track example_consts stale_unit 0 0 one_sector_store
       = Inr (0, ?u', one_sector_store(3 := Some \<lparr>content = replicate 400 0, pos = 400\<rparr>))"
    using t [THEN conjunct2, THEN conjunct1] by (simp add: example_consts_def fdu)
  have c0: "current_track_data ?u' 0 = 0"
    using t [THEN conjunct2, THEN conjunct2, THEN conjunct2, THEN conjunct1, rule_format, of 0 0]
    by (simp add: example_consts_def)
  have c1: "current_track_data ?u' 3724 = 0"
    using t [THEN conjunct2, THEN conjunct2, THEN conjunct2, THEN conjunct1, rule_format, of 1 0]
    by (simp add: example_consts_def)
  have c2: "current_track_data ?u' 3931 = 1" "current_track_data ?u' 4139 = 1"
    using t [THEN conjunct2, THEN conjunct2, THEN conjunct2, THEN conjunct2, THEN conjunct1,
        rule_format, of 1]
    by (simp_all add: example_consts_def)
  have c3: "current_track_data ?u' 4140 = current_track_data stale_unit 4140"
    using t [THEN conjunct2, THEN conjunct2, THEN conjunct2, THEN conjunct2, THEN conjunct2,
        rule_format, of 4140]
    by (simp add: example_consts_def)
  from h run c0 c1 c2 c3 show ?thesis by blast
qed

text \<open>
  With a store of zero bytes the read of sector 0 fails. The buffer held ones; afterwards
  cell 0 is zero and cell 416, behind the second sync field, still holds its one: a
  partly overwritten track is left behind.
\<close>

theorem materialization_partial_track_counterexample:
  "hawk_buffer_track example_consts stale_unit 5 0 empty_store
     = Inr (0, gaps_laid example_consts 0 stale_unit,
            (\<lambda>d. None)(3 := Some \<lparr>content = [], pos = 64000\<rparr>))
   \<and> current_track_data stale_unit 0 = 1
   \<and> current_track_data (gaps_laid example_consts 0 stale_unit) 0 = 0
   \<and> current_track_data stale_unit 416 = 1
   \<and> current_track_data (gaps_laid example_consts 0 stale_unit) 416 = 1"
proof -
  have fits: "track_fits example_consts"
    by (simp add: track_fits_def example_consts_def)
  have op: "empty_store (fd stale_unit) = Some \<lparr>content = [], pos = 0\<rparr>"
    by (simp add: empty_store_def stale_unit_def fresh_unit_def)
  have "hawk_buffer_track example_consts stale_unit 5 0 empty_store
     = Inr (0, gaps_laid example_consts 0 stale_unit,
            (\<lambda>d. None)(3 := Some \<lparr>content = [], pos = 64000\<rparr>))"
    using hawk_buffer_track_explicit [OF fits, where fs = empty_store and u = stale_unit
        and f = "\<lparr>content = [], pos = 0\<rparr>" and cyl = 5 and head = 0] op
    by (simp add: Let_def example_consts_def empty_store_def stale_unit_def fresh_unit_def)
  moreover have "current_track_data stale_unit 0 = 1" "current_track_data stale_unit 416 = 1"
    by (simp_all add: stale_unit_def)
  moreover have "current_track_data (gaps_laid example_consts 0 stale_unit) 0 = 0"
    "current_track_data (gaps_laid example_consts 0 stale_unit) 416 = 1"
    by (simp_all add: gaps_laid_def fill_cells_cell example_consts_def stale_unit_def fresh_unit_def)
  ultimately show ?thesis by simp
qed

text \<open>
  C2. The specification has the read-back of 32 bits at a sector's address-field offset
  (the start of the sector's span, past the first gap and sync field) reproduce the
  address word and its complement. The code does not do that. After a materialization
  that succeeded, \<^verbatim>\<open>hawk_read_bits\<close> with a count of 32 at that offset reads one cell,
  stores the single byte 0 and leaves the cursor one cell further: the cell is a zero of
  the second gap, laid where the address field belongs, because \<^verbatim>\<open>hawk_write_bits\<close>
  returns at once for every count other than 0.
\<close>

theorem address_field_read_back:
  assumes fits: "track_fits c" and gap: "0 < HAWK_GAP_BITS c"
    and f: "fs (fd u) = Some f"
    and enough: "unat ((push_bit 5 cyl OR push_bit 4 head) * (of_nat (HAWK_SECTOR_BYTES c) :: u32))
               + HAWK_SECTS_PER_TRK c * HAWK_SECTOR_BYTES c \<le> length (content f)"
    and s: "s < HAWK_SECTS_PER_TRK c"
    and dest: "0 < length dest"
  shows "\<exists>u' fs'. hawk_buffer_track c u cyl head fs = Inr (1, u', fs')
            \<and> hawk_read_bits c
                 (u'\<lparr>data_ptr := int s * int (HAWK_RAW_SECTOR_BITS c)
                                  + int (HAWK_GAP_BITS c) + int (HAWK_SYNC_BITS c)\<rparr>) 32 dest 0
               = Inr (u'\<lparr>data_ptr := int s * int (HAWK_RAW_SECTOR_BITS c)
                                  + int (HAWK_GAP_BITS c) + int (HAWK_SYNC_BITS c) + 1\<rparr>,
                      dest[0 := 0])"
proof -
  define off where
    "off = unat ((push_bit 5 cyl OR push_bit 4 head) * (of_nat (HAWK_SECTOR_BYTES c) :: u32))"
  define u' where "u' = rounds_laid c 0 (HAWK_SECTS_PER_TRK c) u"
  define a where "a = int s * int (HAWK_RAW_SECTOR_BITS c)
                        + int (HAWK_GAP_BITS c) + int (HAWK_SYNC_BITS c)"
  have sb: "0 < HAWK_SECTOR_BYTES c" using fits by (simp add: track_fits_def)
  have "HAWK_SECTS_PER_TRK c * HAWK_SECTOR_BYTES c \<le> length (content f) - off"
    using enough unfolding off_def by linarith
  then have "HAWK_SECTS_PER_TRK c \<le> (length (content f) - off) div HAWK_SECTOR_BYTES c"
    using sb by (simp add: less_eq_div_iff_mult_less_eq)
  then have run: "hawk_buffer_track c u cyl head fs
          = Inr (1, u', fs(fd u := Some (f\<lparr>pos := off + HAWK_SECTS_PER_TRK c * HAWK_SECTOR_BYTES c\<rparr>)))"
    using hawk_buffer_track_explicit [OF fits, where fs = fs and u = u and f = f
        and cyl = cyl and head = head] f
    by (simp add: Let_def off_def [symmetric] u'_def)
  have cell: "current_track_data u' a = 0"
    unfolding u'_def a_def using s by (intro rounds_laid_addr_cell [OF fits gap]) simp_all
  have "2 * HAWK_GAP_BITS c + 2 * HAWK_SYNC_BITS c + HAWK_GAP_BITS c div 2
            \<le> HAWK_RAW_SECTOR_BITS c"
    and rt: "HAWK_SECTS_PER_TRK c * HAWK_RAW_SECTOR_BITS c \<le> HAWK_RAW_TRACK_BITS c"
    using fits by (simp_all add: track_fits_def)
  then have "int (HAWK_GAP_BITS c) + int (HAWK_SYNC_BITS c) < int (HAWK_RAW_SECTOR_BITS c)"
    using gap by linarith
  moreover have "int s * int (HAWK_RAW_SECTOR_BITS c) + int (HAWK_RAW_SECTOR_BITS c)
                   \<le> int (HAWK_RAW_TRACK_BITS c)"
    using s rt by (rule sector_span)
  ultimately have hi: "a < int (HAWK_RAW_TRACK_BITS c)" unfolding a_def by linarith
  have lo: "0 \<le> a" unfolding a_def by simp
  have "hawk_read_bits c (u'\<lparr>data_ptr := a\<rparr>) 32 dest 0
          = Inr (u'\<lparr>data_ptr := a + 1\<rparr>, dest[0 := 0])"
    using hawk_read_bits_one_cell [of 32 "u'\<lparr>data_ptr := a\<rparr>" c 0 dest] lo hi dest cell
    by simp
  with run show ?thesis unfolding a_def by blast
qed

theorem address_field_read_back_witness:
  "track_fits example_consts \<and> 0 < HAWK_GAP_BITS example_consts
   \<and> healthy_store (fd (fresh_unit 3 0)) = Some \<lparr>content = replicate 5196800 0, pos = 0\<rparr>
   \<and> unat ((push_bit 5 1 OR push_bit 4 0) * (of_nat (HAWK_SECTOR_BYTES example_consts) :: u32))
        + HAWK_SECTS_PER_TRK example_consts * HAWK_SECTOR_BYTES example_consts
        \<le> length (content \<lparr>content = replicate 5196800 (0 :: u8), pos = 0\<rparr>)
   \<and> 0 < HAWK_SECTS_PER_TRK example_consts
   \<and> 0 < length [0, 0, 0, 0 :: u8]
   \<and> (\<exists>u' fs'. hawk_buffer_track example_consts (fresh_unit 3 0) 1 0 healthy_store
                    = Inr (1, u', fs')
          \<and> hawk_read_bits example_consts (u'\<lparr>data_ptr := 208\<rparr>) 32 [0, 0, 0, 0] 0
               = Inr (u'\<lparr>data_ptr := 209\<rparr>, [0, 0, 0, 0]))
   \<and> spec_address_field 1 0 0 = [1, 0, 254, 255]"
proof -
  have h: "track_fits example_consts" "0 < HAWK_GAP_BITS example_consts"
      "healthy_store (fd (fresh_unit 3 0)) = Some \<lparr>content = replicate 5196800 0, pos = 0\<rparr>"
      "unat ((push_bit 5 1 OR push_bit 4 0) * (of_nat (HAWK_SECTOR_BYTES example_consts) :: u32))
        + HAWK_SECTS_PER_TRK example_consts * HAWK_SECTOR_BYTES example_consts
        \<le> length (content \<lparr>content = replicate 5196800 (0 :: u8), pos = 0\<rparr>)"
      "0 < HAWK_SECTS_PER_TRK example_consts"
      "0 < length [0, 0, 0, 0 :: u8]"
    by (simp_all add: track_fits_def example_consts_def healthy_store_def fresh_unit_def)
  have sp: "spec_address_field 1 0 0 = [1, 0, 254, 255]"
    by (simp add: spec_address_field_def Let_def)
  from address_field_read_back [where c = example_consts and fs = healthy_store
      and u = "fresh_unit 3 0" and f = "\<lparr>content = replicate 5196800 0, pos = 0\<rparr>"
      and cyl = 1 and head = 0 and s = 0 and dest = "[0, 0, 0, 0]"] h
  obtain u' fs' where "hawk_buffer_track example_consts (fresh_unit 3 0) 1 0 healthy_store
                    = Inr (1, u', fs')"
    "hawk_read_bits example_consts
        (u'\<lparr>data_ptr := int 0 * int (HAWK_RAW_SECTOR_BITS example_consts)
                  + int (HAWK_GAP_BITS example_consts) + int (HAWK_SYNC_BITS example_consts)\<rparr>)
        32 [0, 0, 0, 0] 0
       = Inr (u'\<lparr>data_ptr := int 0 * int (HAWK_RAW_SECTOR_BITS example_consts)
                  + int (HAWK_GAP_BITS example_consts) + int (HAWK_SYNC_BITS example_consts) + 1\<rparr>,
              [0, 0, 0, 0][0 := 0])"
    by blast
  then have "\<exists>u' fs'. hawk_buffer_track example_consts (fresh_unit 3 0) 1 0 healthy_store
                    = Inr (1, u', fs')
          \<and> hawk_read_bits example_consts (u'\<lparr>data_ptr := 208\<rparr>) 32 [0, 0, 0, 0] 0
               = Inr (u'\<lparr>data_ptr := 209\<rparr>, [0, 0, 0, 0])"
    by (intro exI [of _ u'] exI [of _ fs']) (simp add: example_consts_def)
  with h sp show ?thesis by blast
qed

section \<open>Properties of the backing-store layout\<close>

lemma rounds_laid_add:
  "rounds_laid c k (a + b) u = rounds_laid c (k + a) b (rounds_laid c k a u)"
  by (induction a arbitrary: k u) simp_all

lemma rounds_laid_fd: "fd (rounds_laid c k n u) = fd u"
  using only_track_changed_fields(1) [OF rounds_laid_only_track] .

lemma slot_or_sector:
  fixes cyl head :: u32
  assumes "s < 16"
  shows "push_bit 5 cyl OR push_bit 4 head OR of_nat s
           = (push_bit 5 cyl OR push_bit 4 head) + of_nat s"
proof -
  have low: "\<not> bit (of_nat s :: u32) n" if "4 \<le> n" for n
  proof -
    have "(2 :: nat) ^ 4 \<le> 2 ^ n" using that by (intro power_increasing) simp_all
    with assms have "s < 2 ^ n" by simp
    then have "\<not> bit s n" by (simp add: bit_iff_odd)
    then show ?thesis by (simp add: bit_of_nat_iff)
  qed
  have "(push_bit 5 cyl OR push_bit 4 head) AND (of_nat s :: u32) = 0"
    by (rule bit_word_eqI) (use low in \<open>auto simp add: bit_simps\<close>)
  then have "(push_bit 5 cyl OR push_bit 4 head) + of_nat s
               = (push_bit 5 cyl OR push_bit 4 head) OR (of_nat s :: u32)"
    by (rule disjunctive_add_eq_or)
  then show ?thesis by (simp add: or.assoc)
qed

lemma unat_add_of_nat:
  fixes p :: u32
  assumes "unat p + q < 2 ^ 32"
  shows "unat (p + of_nat q) = unat p + q"
proof -
  have "q < 2 ^ 32" using assms by simp
  then have "unat (of_nat q :: u32) = q" by (rule unat_of_nat_u32)
  with assms show ?thesis by (simp add: unat_add_lem [THEN iffD1])
qed

lemma sector_offset:
  fixes cyl head :: u32
  assumes s: "s < 16"
    and nowrap: "unat ((push_bit 5 cyl OR push_bit 4 head) * (of_nat n :: u32)) + s * n < 2 ^ 32"
  shows "unat ((push_bit 5 cyl OR push_bit 4 head OR of_nat s) * (of_nat n :: u32))
           = unat ((push_bit 5 cyl OR push_bit 4 head) * (of_nat n :: u32)) + s * n"
proof -
  define a where "a = (push_bit 5 cyl OR push_bit 4 head :: u32)"
  have sn: "s * n < 2 ^ 32" using nowrap by simp
  have "(a + of_nat s) * (of_nat n :: u32) = a * of_nat n + of_nat (s * n)"
    by (simp add: algebra_simps)
  moreover have "unat (a * of_nat n + (of_nat (s * n) :: u32)) = unat (a * of_nat n :: u32) + s * n"
    using nowrap unfolding a_def [symmetric] by (rule unat_add_of_nat)
  ultimately show ?thesis
    unfolding slot_or_sector [OF s] a_def [symmetric] by (simp only:)
qed

lemma hawk_buffer_track_passes_round:
  assumes fits: "track_fits c" and f: "fs (fd u) = Some f"
    and s: "s \<le> HAWK_SECTS_PER_TRK c"
    and before: "off + s * HAWK_SECTOR_BYTES c \<le> length (content f)"
    and off: "off = unat ((push_bit 5 cyl OR push_bit 4 head)
                            * (of_nat (HAWK_SECTOR_BYTES c) :: u32))"
  shows "hawk_buffer_track c u cyl head fs =
           hawk_buffer_track_for c cyl head s (rounds_laid c 0 s u)
             (fs(fd u := Some (f\<lparr>pos := off + s * HAWK_SECTOR_BYTES c\<rparr>)))"
proof -
  let ?SB = "HAWK_SECTOR_BYTES c" and ?N = "HAWK_SECTS_PER_TRK c"
  define fS where "fS = f\<lparr>pos := off + s * ?SB\<rparr>"
  define fss where "fss = fs(fd u := Some fS)"
  define us where "us = rounds_laid c 0 s u"
  define m where "m = (length (content f) - off) div ?SB"
  define m' where "m' = (length (content f) - (off + s * ?SB)) div ?SB"
  have sb: "0 < ?SB" using fits by (simp add: track_fits_def)
  have fdus: "fd us = fd u" by (simp add: us_def rounds_laid_fd)
  have "length (content f) - off = (length (content f) - (off + s * ?SB)) + s * ?SB"
    using before by simp
  then have mm: "m = m' + s"
    unfolding m_def m'_def using sb by (metis div_mult_self1 less_numeral_extra(3) add.commute)
  have lhs: "hawk_buffer_track c u cyl head fs =
           (if ?N \<le> m
               then Inr (1, rounds_laid c 0 ?N u, fs(fd u := Some (f\<lparr>pos := off + ?N * ?SB\<rparr>)))
               else Inr (0, gaps_laid c m (rounds_laid c 0 m u),
                         fs(fd u := Some (f\<lparr>pos := max off (length (content f))\<rparr>))))"
    using hawk_buffer_track_explicit [OF fits, where fs = fs and u = u and f = f
        and cyl = cyl and head = head] f
    by (simp add: Let_def off [symmetric] m_def)
  have "fss (fd us) = Some fS" by (simp add: fss_def fdus)
  with hawk_buffer_track_for_explicit [OF fits, where fs = fss and u = us and f = fS
        and k = s and cyl = cyl and head = head]
  have rhs: "hawk_buffer_track_for c cyl head s us fss =
           (if ?N - s \<le> m'
               then Inr (1, rounds_laid c s (?N - s) us,
                         fss(fd us := Some (fS\<lparr>pos := pos fS + (?N - s) * ?SB\<rparr>)))
               else Inr (0, gaps_laid c (s + m') (rounds_laid c s m' us),
                         fss(fd us := Some (fS\<lparr>pos := max (pos fS) (length (content fS))\<rparr>))))"
    by (simp add: Let_def m'_def fS_def)
  have r1: "rounds_laid c s (?N - s) us = rounds_laid c 0 ?N u"
    using rounds_laid_add [of c 0 s "?N - s" u] s by (simp add: us_def)
  have r2: "rounds_laid c s m' us = rounds_laid c 0 m u"
    using rounds_laid_add [of c 0 s m' u] by (simp add: us_def mm add.commute)
  have p1: "off + s * ?SB + (?N - s) * ?SB = off + ?N * ?SB"
    using s by (simp add: add.assoc distrib_right [symmetric])
  have p2: "max (off + s * ?SB) (length (content f)) = max off (length (content f))"
    using before by simp
  have c: "?N - s \<le> m' \<longleftrightarrow> ?N \<le> m"
    using s by (simp add: mm) linarith
  show ?thesis
    unfolding us_def [symmetric] fS_def [symmetric] fss_def [symmetric]
    unfolding lhs rhs c r1 r2
    by (simp add: fss_def fS_def fdus p1 p2 mm add.commute)
qed

text \<open>
  C9. During the materialization of \<open>(cylinder, head)\<close>, for every sector \<open>s\<close> below the
  sectors-per-track count, the bytes handed on as the data field of sector \<open>s\<close> are read
  from the backing-store offset \<open>((cylinder<<5) | (head<<4) | s) * HAWK_SECTOR_BYTES\<close>.
  With the sectors before \<open>s\<close> in the store, the run passes through round \<open>s\<close> with the
  file positioned at that offset (one seek, then the reads of the rounds before it); the
  read of the round returns the bytes of the store from that offset on, and a full read
  leaves the file one sector further. At most sixteen sectors share a head slot, and
  the offsets of the track are below \<open>2^32\<close>, the range of the \<open>unsigned\<close> product.
\<close>

theorem sector_data_read_offset:
  assumes fits: "track_fits c" and slots: "HAWK_SECTS_PER_TRK c \<le> 16"
    and s: "s < HAWK_SECTS_PER_TRK c"
    and f: "fs (fd u) = Some f"
    and nowrap: "unat ((push_bit 5 cyl OR push_bit 4 head) * (of_nat (HAWK_SECTOR_BYTES c) :: u32))
                   + HAWK_SECTS_PER_TRK c * HAWK_SECTOR_BYTES c \<le> 2 ^ 32"
    and before: "unat ((push_bit 5 cyl OR push_bit 4 head) * (of_nat (HAWK_SECTOR_BYTES c) :: u32))
                   + s * HAWK_SECTOR_BYTES c \<le> length (content f)"
  shows "let off_s = unat ((push_bit 5 cyl OR push_bit 4 head OR of_nat s)
                             * (of_nat (HAWK_SECTOR_BYTES c) :: u32));
             us = rounds_laid c 0 s u;
             fss = fs(fd u := Some (f\<lparr>pos := off_s\<rparr>))
         in hawk_buffer_track c u cyl head fs = hawk_buffer_track_for c cyl head s us fss
            \<and> read_fd fss (fd us) (HAWK_SECTOR_BYTES c)
                = (int (min (HAWK_SECTOR_BYTES c) (length (content f) - off_s)),
                   take (HAWK_SECTOR_BYTES c) (drop off_s (content f)),
                   fs(fd u := Some (f\<lparr>pos := off_s
                        + min (HAWK_SECTOR_BYTES c) (length (content f) - off_s)\<rparr>)))
            \<and> (off_s + HAWK_SECTOR_BYTES c \<le> length (content f) \<longrightarrow>
                 hawk_buffer_sector c cyl head s us fss
                   = Inr (1, sector_laid c s us,
                          fs(fd u := Some (f\<lparr>pos := off_s + HAWK_SECTOR_BYTES c\<rparr>))))"
proof -
  let ?SB = "HAWK_SECTOR_BYTES c"
  define off where "off = unat ((push_bit 5 cyl OR push_bit 4 head) * (of_nat ?SB :: u32))"
  define off_s where
    "off_s = unat ((push_bit 5 cyl OR push_bit 4 head OR of_nat s) * (of_nat ?SB :: u32))"
  define us where "us = rounds_laid c 0 s u"
  define fss where "fss = fs(fd u := Some (f\<lparr>pos := off_s\<rparr>))"
  have sb: "0 < ?SB" using fits by (simp add: track_fits_def)
  have s16: "s < 16" using s slots by simp
  have "s * ?SB < HAWK_SECTS_PER_TRK c * ?SB" using s sb by simp
  then have "off + s * ?SB < 2 ^ 32" using nowrap unfolding off_def by linarith
  then have os: "off_s = off + s * ?SB"
    unfolding off_s_def off_def by (intro sector_offset [OF s16])
  have fdus: "fd us = fd u" by (simp add: us_def rounds_laid_fd)
  have op: "fss (fd us) = Some (f\<lparr>pos := off_s\<rparr>)" by (simp add: fss_def fdus)
  have pass: "hawk_buffer_track c u cyl head fs = hawk_buffer_track_for c cyl head s us fss"
    unfolding us_def fss_def os
    using hawk_buffer_track_passes_round [where fs = fs and u = u and f = f and c = c
        and s = s and off = off and cyl = cyl and head = head] fits f s before
    by (simp add: off_def)
  have rd: "read_fd fss (fd us) ?SB
                = (int (min ?SB (length (content f) - off_s)),
                   take ?SB (drop off_s (content f)),
                   fs(fd u := Some (f\<lparr>pos := off_s + min ?SB (length (content f) - off_s)\<rparr>)))"
    using read_fd_open [where fs = fss and d = "fd us" and f = "f\<lparr>pos := off_s\<rparr>" and n = ?SB] op
    by (simp add: fss_def fdus)
  have full: "hawk_buffer_sector c cyl head s us fss
                   = Inr (1, sector_laid c s us, fs(fd u := Some (f\<lparr>pos := off_s + ?SB\<rparr>)))"
    if "off_s + ?SB \<le> length (content f)"
  proof -
    from that have "min ?SB (length (content f) - off_s) = ?SB" by simp
    then show ?thesis
      unfolding hawk_buffer_sector_eq [OF fits s] rd by simp
  qed
  show ?thesis
    unfolding Let_def off_s_def [symmetric] us_def [symmetric] fss_def [symmetric]
    using pass rd full by blast
qed

theorem sector_data_read_offset_witness:
  "track_fits example_consts \<and> HAWK_SECTS_PER_TRK example_consts \<le> 16
   \<and> 3 < HAWK_SECTS_PER_TRK example_consts
   \<and> healthy_store (fd (fresh_unit 3 0)) = Some \<lparr>content = replicate 5196800 0, pos = 0\<rparr>
   \<and> unat ((push_bit 5 5 OR push_bit 4 1) * (of_nat (HAWK_SECTOR_BYTES example_consts) :: u32))
        + HAWK_SECTS_PER_TRK example_consts * HAWK_SECTOR_BYTES example_consts \<le> 2 ^ 32
   \<and> unat ((push_bit 5 5 OR push_bit 4 1) * (of_nat (HAWK_SECTOR_BYTES example_consts) :: u32))
        + 3 * HAWK_SECTOR_BYTES example_consts
        \<le> length (content \<lparr>content = replicate 5196800 (0 :: u8), pos = 0\<rparr>)
   \<and> hawk_buffer_track example_consts (fresh_unit 3 0) 5 1 healthy_store
       = hawk_buffer_track_for example_consts 5 1 3 (rounds_laid example_consts 0 3 (fresh_unit 3 0))
           (healthy_store(3 := Some \<lparr>content = replicate 5196800 0, pos = 71600\<rparr>))
   \<and> read_fd (healthy_store(3 := Some \<lparr>content = replicate 5196800 0, pos = 71600\<rparr>))
         (fd (rounds_laid example_consts 0 3 (fresh_unit 3 0))) 400
       = (400, take 400 (drop 71600 (replicate 5196800 0)),
          healthy_store(3 := Some \<lparr>content = replicate 5196800 0, pos = 72000\<rparr>))"
proof -
  have h: "track_fits example_consts" "HAWK_SECTS_PER_TRK example_consts \<le> 16"
      "3 < HAWK_SECTS_PER_TRK example_consts"
      "healthy_store (fd (fresh_unit 3 0)) = Some \<lparr>content = replicate 5196800 0, pos = 0\<rparr>"
      "unat ((push_bit 5 5 OR push_bit 4 1) * (of_nat (HAWK_SECTOR_BYTES example_consts) :: u32))
        + HAWK_SECTS_PER_TRK example_consts * HAWK_SECTOR_BYTES example_consts \<le> 2 ^ 32"
      "unat ((push_bit 5 5 OR push_bit 4 1) * (of_nat (HAWK_SECTOR_BYTES example_consts) :: u32))
        + 3 * HAWK_SECTOR_BYTES example_consts
        \<le> length (content \<lparr>content = replicate 5196800 (0 :: u8), pos = 0\<rparr>)"
    by (simp_all add: track_fits_def example_consts_def healthy_store_def fresh_unit_def)
  have o: "unat ((push_bit 5 5 OR push_bit 4 1 OR of_nat 3)
                  * (of_nat (HAWK_SECTOR_BYTES example_consts) :: u32)) = 71600"
    by (simp add: example_consts_def)
  have sb: "HAWK_SECTOR_BYTES example_consts = 400" by (simp add: example_consts_def)
  have fdu: "fd (fresh_unit 3 0) = 3" by (simp add: fresh_unit_def)
  note t = sector_data_read_offset [where c = example_consts and fs = healthy_store
      and u = "fresh_unit 3 0" and f = "\<lparr>content = replicate 5196800 0, pos = 0\<rparr>"
      and cyl = 5 and head = 1 and s = 3, unfolded Let_def o sb fdu]
  have "hawk_buffer_track example_consts (fresh_unit 3 0) 5 1 healthy_store
       = hawk_buffer_track_for example_consts 5 1 3 (rounds_laid example_consts 0 3 (fresh_unit 3 0))
           (healthy_store(3 := Some \<lparr>content = replicate 5196800 0, pos = 71600\<rparr>))
   \<and> read_fd (healthy_store(3 := Some \<lparr>content = replicate 5196800 0, pos = 71600\<rparr>))
         (fd (rounds_laid example_consts 0 3 (fresh_unit 3 0))) 400
       = (400, take 400 (drop 71600 (replicate 5196800 0)),
          healthy_store(3 := Some \<lparr>content = replicate 5196800 0, pos = 72000\<rparr>))"
    using t h [unfolded sb fdu] by simp
  with h show ?thesis by blast
qed

end
